theory Spec2Isabelle
  imports Main "HOL-Library.Multiset"
begin

section \<open>Region registry (package region)\<close>

text \<open>
  Go's \<^verbatim>\<open>type ID int\<close>. Go strings are byte sequences; a \<^typ>\<open>string\<close> here is the
  list of the UTF-8 bytes of the Go string, so the Ukrainian names of the source are written
  byte by byte. Of the identifier constants of the source, the ones below are those that the
  program and the examples name.
\<close>

type_synonym ID = int

definition Invalid :: ID where "Invalid = 0"
definition Crimea :: ID where "Crimea = 1"
definition Luhansk :: ID where "Luhansk = 12"
definition Odesa :: ID where "Odesa = 15"
definition KyivCity :: ID where "KyivCity = 26"

text \<open>
  \<^verbatim>\<open>namesById\<close>, the map literal of the source, as the list of its key/value pairs in the
  order of the literal (the keys are pairwise distinct). Each entry is preceded by a
  transliteration of the name.
\<close>

definition namesById :: "(ID \<times> string) list" where
  "namesById = [
    \<comment> \<open>Avtonomna Respublika Krym\<close>
    (1, [CHR 0xD0, CHR 0x90, CHR 0xD0, CHR 0xB2, CHR 0xD1, CHR 0x82, CHR 0xD0, CHR 0xBE, CHR 0xD0,
      CHR 0xBD, CHR 0xD0, CHR 0xBE, CHR 0xD0, CHR 0xBC, CHR 0xD0, CHR 0xBD, CHR 0xD0, CHR 0xB0,
      CHR '' '', CHR 0xD0, CHR 0xA0, CHR 0xD0, CHR 0xB5, CHR 0xD1, CHR 0x81, CHR 0xD0,
      CHR 0xBF, CHR 0xD1, CHR 0x83, CHR 0xD0, CHR 0xB1, CHR 0xD0, CHR 0xBB, CHR 0xD1, CHR 0x96,
      CHR 0xD0, CHR 0xBA, CHR 0xD0, CHR 0xB0, CHR '' '', CHR 0xD0, CHR 0x9A, CHR 0xD1,
      CHR 0x80, CHR 0xD0, CHR 0xB8, CHR 0xD0, CHR 0xBC]),
    \<comment> \<open>Vinnytska oblast\<close>
    (2, [CHR 0xD0, CHR 0x92, CHR 0xD1, CHR 0x96, CHR 0xD0, CHR 0xBD, CHR 0xD0, CHR 0xBD, CHR 0xD0,
      CHR 0xB8, CHR 0xD1, CHR 0x86, CHR 0xD1, CHR 0x8C, CHR 0xD0, CHR 0xBA, CHR 0xD0, CHR 0xB0,
      CHR '' '', CHR 0xD0, CHR 0xBE, CHR 0xD0, CHR 0xB1, CHR 0xD0, CHR 0xBB, CHR 0xD0,
      CHR 0xB0, CHR 0xD1, CHR 0x81, CHR 0xD1, CHR 0x82, CHR 0xD1, CHR 0x8C]),
    \<comment> \<open>Volynska oblast\<close>
    (3, [CHR 0xD0, CHR 0x92, CHR 0xD0, CHR 0xBE, CHR 0xD0, CHR 0xBB, CHR 0xD0, CHR 0xB8, CHR 0xD0,
      CHR 0xBD, CHR 0xD1, CHR 0x81, CHR 0xD1, CHR 0x8C, CHR 0xD0, CHR 0xBA, CHR 0xD0, CHR 0xB0,
      CHR '' '', CHR 0xD0, CHR 0xBE, CHR 0xD0, CHR 0xB1, CHR 0xD0, CHR 0xBB, CHR 0xD0,
      CHR 0xB0, CHR 0xD1, CHR 0x81, CHR 0xD1, CHR 0x82, CHR 0xD1, CHR 0x8C]),
    \<comment> \<open>Dnipropetrovska oblast\<close>
    (4, [CHR 0xD0, CHR 0x94, CHR 0xD0, CHR 0xBD, CHR 0xD1, CHR 0x96, CHR 0xD0, CHR 0xBF, CHR 0xD1,
      CHR 0x80, CHR 0xD0, CHR 0xBE, CHR 0xD0, CHR 0xBF, CHR 0xD0, CHR 0xB5, CHR 0xD1, CHR 0x82,
      CHR 0xD1, CHR 0x80, CHR 0xD0, CHR 0xBE, CHR 0xD0, CHR 0xB2, CHR 0xD1, CHR 0x81, CHR 0xD1,
      CHR 0x8C, CHR 0xD0, CHR 0xBA, CHR 0xD0, CHR 0xB0, CHR '' '', CHR 0xD0, CHR 0xBE,
      CHR 0xD0, CHR 0xB1, CHR 0xD0, CHR 0xBB, CHR 0xD0, CHR 0xB0, CHR 0xD1, CHR 0x81, CHR 0xD1,
      CHR 0x82, CHR 0xD1, CHR 0x8C]),
    \<comment> \<open>Donetska oblast\<close>
    (5, [CHR 0xD0, CHR 0x94, CHR 0xD0, CHR 0xBE, CHR 0xD0, CHR 0xBD, CHR 0xD0, CHR 0xB5, CHR 0xD1,
      CHR 0x86, CHR 0xD1, CHR 0x8C, CHR 0xD0, CHR 0xBA, CHR 0xD0, CHR 0xB0, CHR '' '',
      CHR 0xD0, CHR 0xBE, CHR 0xD0, CHR 0xB1, CHR 0xD0, CHR 0xBB, CHR 0xD0, CHR 0xB0, CHR 0xD1,
      CHR 0x81, CHR 0xD1, CHR 0x82, CHR 0xD1, CHR 0x8C]),
    \<comment> \<open>Zhytomyrska oblast\<close>
    (6, [CHR 0xD0, CHR 0x96, CHR 0xD0, CHR 0xB8, CHR 0xD1, CHR 0x82, CHR 0xD0, CHR 0xBE, CHR 0xD0,
      CHR 0xBC, CHR 0xD0, CHR 0xB8, CHR 0xD1, CHR 0x80, CHR 0xD1, CHR 0x81, CHR 0xD1, CHR 0x8C,
      CHR 0xD0, CHR 0xBA, CHR 0xD0, CHR 0xB0, CHR '' '', CHR 0xD0, CHR 0xBE, CHR 0xD0,
      CHR 0xB1, CHR 0xD0, CHR 0xBB, CHR 0xD0, CHR 0xB0, CHR 0xD1, CHR 0x81, CHR 0xD1, CHR 0x82,
      CHR 0xD1, CHR 0x8C]),
    \<comment> \<open>Zakarpatska oblast\<close>
    (7, [CHR 0xD0, CHR 0x97, CHR 0xD0, CHR 0xB0, CHR 0xD0, CHR 0xBA, CHR 0xD0, CHR 0xB0, CHR 0xD1,
      CHR 0x80, CHR 0xD0, CHR 0xBF, CHR 0xD0, CHR 0xB0, CHR 0xD1, CHR 0x82, CHR 0xD1, CHR 0x81,
      CHR 0xD1, CHR 0x8C, CHR 0xD0, CHR 0xBA, CHR 0xD0, CHR 0xB0, CHR '' '', CHR 0xD0,
      CHR 0xBE, CHR 0xD0, CHR 0xB1, CHR 0xD0, CHR 0xBB, CHR 0xD0, CHR 0xB0, CHR 0xD1, CHR 0x81,
      CHR 0xD1, CHR 0x82, CHR 0xD1, CHR 0x8C]),
    \<comment> \<open>Zaporizka oblast\<close>
    (8, [CHR 0xD0, CHR 0x97, CHR 0xD0, CHR 0xB0, CHR 0xD0, CHR 0xBF, CHR 0xD0, CHR 0xBE, CHR 0xD1,
      CHR 0x80, CHR 0xD1, CHR 0x96, CHR 0xD0, CHR 0xB7, CHR 0xD1, CHR 0x8C, CHR 0xD0, CHR 0xBA,
      CHR 0xD0, CHR 0xB0, CHR '' '', CHR 0xD0, CHR 0xBE, CHR 0xD0, CHR 0xB1, CHR 0xD0,
      CHR 0xBB, CHR 0xD0, CHR 0xB0, CHR 0xD1, CHR 0x81, CHR 0xD1, CHR 0x82, CHR 0xD1, CHR 0x8C]),
    \<comment> \<open>Ivano-Frankivska oblast\<close>
    (9, [CHR 0xD0, CHR 0x86, CHR 0xD0, CHR 0xB2, CHR 0xD0, CHR 0xB0, CHR 0xD0, CHR 0xBD, CHR 0xD0,
      CHR 0xBE, CHR ''-'', CHR 0xD0, CHR 0xA4, CHR 0xD1, CHR 0x80, CHR 0xD0, CHR 0xB0,
      CHR 0xD0, CHR 0xBD, CHR 0xD0, CHR 0xBA, CHR 0xD1, CHR 0x96, CHR 0xD0, CHR 0xB2, CHR 0xD1,
      CHR 0x81, CHR 0xD1, CHR 0x8C, CHR 0xD0, CHR 0xBA, CHR 0xD0, CHR 0xB0, CHR '' '',
      CHR 0xD0, CHR 0xBE, CHR 0xD0, CHR 0xB1, CHR 0xD0, CHR 0xBB, CHR 0xD0, CHR 0xB0, CHR 0xD1,
      CHR 0x81, CHR 0xD1, CHR 0x82, CHR 0xD1, CHR 0x8C]),
    \<comment> \<open>Kyivska oblast\<close>
    (10, [CHR 0xD0, CHR 0x9A, CHR 0xD0, CHR 0xB8, CHR 0xD1, CHR 0x97, CHR 0xD0, CHR 0xB2, CHR 0xD1,
      CHR 0x81, CHR 0xD1, CHR 0x8C, CHR 0xD0, CHR 0xBA, CHR 0xD0, CHR 0xB0, CHR '' '',
      CHR 0xD0, CHR 0xBE, CHR 0xD0, CHR 0xB1, CHR 0xD0, CHR 0xBB, CHR 0xD0, CHR 0xB0, CHR 0xD1,
      CHR 0x81, CHR 0xD1, CHR 0x82, CHR 0xD1, CHR 0x8C]),
    \<comment> \<open>Kirovohradska oblast\<close>
    (11, [CHR 0xD0, CHR 0x9A, CHR 0xD1, CHR 0x96, CHR 0xD1, CHR 0x80, CHR 0xD0, CHR 0xBE, CHR 0xD0,
      CHR 0xB2, CHR 0xD0, CHR 0xBE, CHR 0xD0, CHR 0xB3, CHR 0xD1, CHR 0x80, CHR 0xD0, CHR 0xB0,
      CHR 0xD0, CHR 0xB4, CHR 0xD1, CHR 0x81, CHR 0xD1, CHR 0x8C, CHR 0xD0, CHR 0xBA, CHR 0xD0,
      CHR 0xB0, CHR '' '', CHR 0xD0, CHR 0xBE, CHR 0xD0, CHR 0xB1, CHR 0xD0, CHR 0xBB,
      CHR 0xD0, CHR 0xB0, CHR 0xD1, CHR 0x81, CHR 0xD1, CHR 0x82, CHR 0xD1, CHR 0x8C]),
    \<comment> \<open>Luhanska oblast\<close>
    (12, [CHR 0xD0, CHR 0x9B, CHR 0xD1, CHR 0x83, CHR 0xD0, CHR 0xB3, CHR 0xD0, CHR 0xB0, CHR 0xD0,
      CHR 0xBD, CHR 0xD1, CHR 0x81, CHR 0xD1, CHR 0x8C, CHR 0xD0, CHR 0xBA, CHR 0xD0, CHR 0xB0,
      CHR '' '', CHR 0xD0, CHR 0xBE, CHR 0xD0, CHR 0xB1, CHR 0xD0, CHR 0xBB, CHR 0xD0,
      CHR 0xB0, CHR 0xD1, CHR 0x81, CHR 0xD1, CHR 0x82, CHR 0xD1, CHR 0x8C]),
    \<comment> \<open>Lvivska oblast\<close>
    (13, [CHR 0xD0, CHR 0x9B, CHR 0xD1, CHR 0x8C, CHR 0xD0, CHR 0xB2, CHR 0xD1, CHR 0x96, CHR 0xD0,
      CHR 0xB2, CHR 0xD1, CHR 0x81, CHR 0xD1, CHR 0x8C, CHR 0xD0, CHR 0xBA, CHR 0xD0, CHR 0xB0,
      CHR '' '', CHR 0xD0, CHR 0xBE, CHR 0xD0, CHR 0xB1, CHR 0xD0, CHR 0xBB, CHR 0xD0,
      CHR 0xB0, CHR 0xD1, CHR 0x81, CHR 0xD1, CHR 0x82, CHR 0xD1, CHR 0x8C]),
    \<comment> \<open>Mykolaivska oblast\<close>
    (14, [CHR 0xD0, CHR 0x9C, CHR 0xD0, CHR 0xB8, CHR 0xD0, CHR 0xBA, CHR 0xD0, CHR 0xBE, CHR 0xD0,
      CHR 0xBB, CHR 0xD0, CHR 0xB0, CHR 0xD1, CHR 0x97, CHR 0xD0, CHR 0xB2, CHR 0xD1, CHR 0x81,
      CHR 0xD1, CHR 0x8C, CHR 0xD0, CHR 0xBA, CHR 0xD0, CHR 0xB0, CHR '' '', CHR 0xD0,
      CHR 0xBE, CHR 0xD0, CHR 0xB1, CHR 0xD0, CHR 0xBB, CHR 0xD0, CHR 0xB0, CHR 0xD1, CHR 0x81,
      CHR 0xD1, CHR 0x82, CHR 0xD1, CHR 0x8C]),
    \<comment> \<open>Odeska oblast\<close>
    (15, [CHR 0xD0, CHR 0x9E, CHR 0xD0, CHR 0xB4, CHR 0xD0, CHR 0xB5, CHR 0xD1, CHR 0x81, CHR 0xD1,
      CHR 0x8C, CHR 0xD0, CHR 0xBA, CHR 0xD0, CHR 0xB0, CHR '' '', CHR 0xD0, CHR 0xBE,
      CHR 0xD0, CHR 0xB1, CHR 0xD0, CHR 0xBB, CHR 0xD0, CHR 0xB0, CHR 0xD1, CHR 0x81, CHR 0xD1,
      CHR 0x82, CHR 0xD1, CHR 0x8C]),
    \<comment> \<open>Poltavska oblast\<close>
    (16, [CHR 0xD0, CHR 0x9F, CHR 0xD0, CHR 0xBE, CHR 0xD0, CHR 0xBB, CHR 0xD1, CHR 0x82, CHR 0xD0,
      CHR 0xB0, CHR 0xD0, CHR 0xB2, CHR 0xD1, CHR 0x81, CHR 0xD1, CHR 0x8C, CHR 0xD0, CHR 0xBA,
      CHR 0xD0, CHR 0xB0, CHR '' '', CHR 0xD0, CHR 0xBE, CHR 0xD0, CHR 0xB1, CHR 0xD0,
      CHR 0xBB, CHR 0xD0, CHR 0xB0, CHR 0xD1, CHR 0x81, CHR 0xD1, CHR 0x82, CHR 0xD1, CHR 0x8C]),
    \<comment> \<open>Rivnenska oblast\<close>
    (17, [CHR 0xD0, CHR 0xA0, CHR 0xD1, CHR 0x96, CHR 0xD0, CHR 0xB2, CHR 0xD0, CHR 0xBD, CHR 0xD0,
      CHR 0xB5, CHR 0xD0, CHR 0xBD, CHR 0xD1, CHR 0x81, CHR 0xD1, CHR 0x8C, CHR 0xD0, CHR 0xBA,
      CHR 0xD0, CHR 0xB0, CHR '' '', CHR 0xD0, CHR 0xBE, CHR 0xD0, CHR 0xB1, CHR 0xD0,
      CHR 0xBB, CHR 0xD0, CHR 0xB0, CHR 0xD1, CHR 0x81, CHR 0xD1, CHR 0x82, CHR 0xD1, CHR 0x8C]),
    \<comment> \<open>Sumska oblast\<close>
    (18, [CHR 0xD0, CHR 0xA1, CHR 0xD1, CHR 0x83, CHR 0xD0, CHR 0xBC, CHR 0xD1, CHR 0x81, CHR 0xD1,
      CHR 0x8C, CHR 0xD0, CHR 0xBA, CHR 0xD0, CHR 0xB0, CHR '' '', CHR 0xD0, CHR 0xBE,
      CHR 0xD0, CHR 0xB1, CHR 0xD0, CHR 0xBB, CHR 0xD0, CHR 0xB0, CHR 0xD1, CHR 0x81, CHR 0xD1,
      CHR 0x82, CHR 0xD1, CHR 0x8C]),
    \<comment> \<open>Ternopilska oblast\<close>
    (19, [CHR 0xD0, CHR 0xA2, CHR 0xD0, CHR 0xB5, CHR 0xD1, CHR 0x80, CHR 0xD0, CHR 0xBD, CHR 0xD0,
      CHR 0xBE, CHR 0xD0, CHR 0xBF, CHR 0xD1, CHR 0x96, CHR 0xD0, CHR 0xBB, CHR 0xD1, CHR 0x8C,
      CHR 0xD1, CHR 0x81, CHR 0xD1, CHR 0x8C, CHR 0xD0, CHR 0xBA, CHR 0xD0, CHR 0xB0,
      CHR '' '', CHR 0xD0, CHR 0xBE, CHR 0xD0, CHR 0xB1, CHR 0xD0, CHR 0xBB, CHR 0xD0,
      CHR 0xB0, CHR 0xD1, CHR 0x81, CHR 0xD1, CHR 0x82, CHR 0xD1, CHR 0x8C]),
    \<comment> \<open>Kharkivska oblast\<close>
    (20, [CHR 0xD0, CHR 0xA5, CHR 0xD0, CHR 0xB0, CHR 0xD1, CHR 0x80, CHR 0xD0, CHR 0xBA, CHR 0xD1,
      CHR 0x96, CHR 0xD0, CHR 0xB2, CHR 0xD1, CHR 0x81, CHR 0xD1, CHR 0x8C, CHR 0xD0, CHR 0xBA,
      CHR 0xD0, CHR 0xB0, CHR '' '', CHR 0xD0, CHR 0xBE, CHR 0xD0, CHR 0xB1, CHR 0xD0,
      CHR 0xBB, CHR 0xD0, CHR 0xB0, CHR 0xD1, CHR 0x81, CHR 0xD1, CHR 0x82, CHR 0xD1, CHR 0x8C]),
    \<comment> \<open>Khersonska oblast\<close>
    (21, [CHR 0xD0, CHR 0xA5, CHR 0xD0, CHR 0xB5, CHR 0xD1, CHR 0x80, CHR 0xD1, CHR 0x81, CHR 0xD0,
      CHR 0xBE, CHR 0xD0, CHR 0xBD, CHR 0xD1, CHR 0x81, CHR 0xD1, CHR 0x8C, CHR 0xD0, CHR 0xBA,
      CHR 0xD0, CHR 0xB0, CHR '' '', CHR 0xD0, CHR 0xBE, CHR 0xD0, CHR 0xB1, CHR 0xD0,
      CHR 0xBB, CHR 0xD0, CHR 0xB0, CHR 0xD1, CHR 0x81, CHR 0xD1, CHR 0x82, CHR 0xD1, CHR 0x8C]),
    \<comment> \<open>Khmelnytska oblast\<close>
    (22, [CHR 0xD0, CHR 0xA5, CHR 0xD0, CHR 0xBC, CHR 0xD0, CHR 0xB5, CHR 0xD0, CHR 0xBB, CHR 0xD1,
      CHR 0x8C, CHR 0xD0, CHR 0xBD, CHR 0xD0, CHR 0xB8, CHR 0xD1, CHR 0x86, CHR 0xD1, CHR 0x8C,
      CHR 0xD0, CHR 0xBA, CHR 0xD0, CHR 0xB0, CHR '' '', CHR 0xD0, CHR 0xBE, CHR 0xD0,
      CHR 0xB1, CHR 0xD0, CHR 0xBB, CHR 0xD0, CHR 0xB0, CHR 0xD1, CHR 0x81, CHR 0xD1, CHR 0x82,
      CHR 0xD1, CHR 0x8C]),
    \<comment> \<open>Cherkaska oblast\<close>
    (23, [CHR 0xD0, CHR 0xA7, CHR 0xD0, CHR 0xB5, CHR 0xD1, CHR 0x80, CHR 0xD0, CHR 0xBA, CHR 0xD0,
      CHR 0xB0, CHR 0xD1, CHR 0x81, CHR 0xD1, CHR 0x8C, CHR 0xD0, CHR 0xBA, CHR 0xD0, CHR 0xB0,
      CHR '' '', CHR 0xD0, CHR 0xBE, CHR 0xD0, CHR 0xB1, CHR 0xD0, CHR 0xBB, CHR 0xD0,
      CHR 0xB0, CHR 0xD1, CHR 0x81, CHR 0xD1, CHR 0x82, CHR 0xD1, CHR 0x8C]),
    \<comment> \<open>Chernivetska oblast\<close>
    (24, [CHR 0xD0, CHR 0xA7, CHR 0xD0, CHR 0xB5, CHR 0xD1, CHR 0x80, CHR 0xD0, CHR 0xBD, CHR 0xD1,
      CHR 0x96, CHR 0xD0, CHR 0xB2, CHR 0xD0, CHR 0xB5, CHR 0xD1, CHR 0x86, CHR 0xD1, CHR 0x8C,
      CHR 0xD0, CHR 0xBA, CHR 0xD0, CHR 0xB0, CHR '' '', CHR 0xD0, CHR 0xBE, CHR 0xD0,
      CHR 0xB1, CHR 0xD0, CHR 0xBB, CHR 0xD0, CHR 0xB0, CHR 0xD1, CHR 0x81, CHR 0xD1, CHR 0x82,
      CHR 0xD1, CHR 0x8C]),
    \<comment> \<open>Chernihivska oblast\<close>
    (25, [CHR 0xD0, CHR 0xA7, CHR 0xD0, CHR 0xB5, CHR 0xD1, CHR 0x80, CHR 0xD0, CHR 0xBD, CHR 0xD1,
      CHR 0x96, CHR 0xD0, CHR 0xB3, CHR 0xD1, CHR 0x96, CHR 0xD0, CHR 0xB2, CHR 0xD1, CHR 0x81,
      CHR 0xD1, CHR 0x8C, CHR 0xD0, CHR 0xBA, CHR 0xD0, CHR 0xB0, CHR '' '', CHR 0xD0,
      CHR 0xBE, CHR 0xD0, CHR 0xB1, CHR 0xD0, CHR 0xBB, CHR 0xD0, CHR 0xB0, CHR 0xD1, CHR 0x81,
      CHR 0xD1, CHR 0x82, CHR 0xD1, CHR 0x8C]),
    \<comment> \<open>m. Kyiv\<close>
    (26, [CHR 0xD0, CHR 0xBC, CHR ''.'', CHR '' '', CHR 0xD0, CHR 0x9A, CHR 0xD0, CHR 0xB8,
      CHR 0xD1, CHR 0x97, CHR 0xD0, CHR 0xB2]),
    \<comment> \<open>m. Sevastopol\<close>
    (27, [CHR 0xD0, CHR 0xBC, CHR ''.'', CHR '' '', CHR 0xD0, CHR 0xA1, CHR 0xD0, CHR 0xB5,
      CHR 0xD0, CHR 0xB2, CHR 0xD0, CHR 0xB0, CHR 0xD1, CHR 0x81, CHR 0xD1, CHR 0x82, CHR 0xD0,
      CHR 0xBE, CHR 0xD0, CHR 0xBF, CHR 0xD0, CHR 0xBE, CHR 0xD0, CHR 0xBB, CHR 0xD1, CHR 0x8C])]"

text \<open>
  \<^verbatim>\<open>idsByName\<close> is filled by \<^verbatim>\<open>init\<close>, which ranges over \<^verbatim>\<open>namesById\<close> and
  stores \<^verbatim>\<open>idsByName[name] = id\<close>.
\<close>

definition idsByName :: "string \<rightharpoonup> ID" where
  "idsByName = foldl (\<lambda>m (rid, name). m(name \<mapsto> rid)) Map.empty namesById"

datatype error =
    Err string
  | Wrap string error
  | ParseError string string
  | Canceled
  | DeadlineExceeded

text \<open>
  \<^verbatim>\<open>region.Parse\<close>: the identifier of a name, or \<^verbatim>\<open>Invalid\<close> with an error. Go's pair
  \<^verbatim>\<open>(ID, error)\<close> is kept as a pair.
\<close>

definition region_Parse :: "string \<Rightarrow> ID \<times> error option" where
  "region_Parse name = (case idsByName name of
       Some rid \<Rightarrow> (rid, None)
     | None \<Rightarrow>
         (Invalid, Some (Err (''name '' @ [CHR 0x27] @ name @ [CHR 0x27] @ '' doesn'' @ [CHR 0x27] @ ''t exist''))))"

definition Count :: int where
  "Count = int (length namesById)"

text \<open>
  \<^verbatim>\<open>Iterator\<close> yields the pairs of \<^verbatim>\<open>namesById\<close>. Go ranges over a map in no fixed order;
  the model takes the order of the literal. The one loop over it, in \<^verbatim>\<open>newAlertData\<close>, gives
  the same store for every order (lemma \<open>init_loop\<close> below holds for any list of pairs).
\<close>

definition Iterator :: "(ID \<times> string) list" where
  "Iterator = namesById"

section \<open>Time (the parts of package time that the program uses)\<close>

text \<open>
  A \<^verbatim>\<open>time.Time\<close> is modelled by the instant it denotes, in nanoseconds since the
  Unix epoch. \<^verbatim>\<open>Before\<close> and \<^verbatim>\<open>After\<close> compare instants; the location
  attached to a Go time value only matters when calendar fields are read, where it is passed
  explicitly.
\<close>

type_synonym Time = int

definition Before :: "Time \<Rightarrow> Time \<Rightarrow> bool" where
  "Before t u = (t < u)"

definition After :: "Time \<Rightarrow> Time \<Rightarrow> bool" where
  "After t u = (t > u)"

text \<open>\<^verbatim>\<open>time.Unix(sec, 0)\<close>.\<close>

definition time_Unix :: "int \<Rightarrow> Time" where
  "time_Unix sec = sec * 1000000000"

text \<open>\<^verbatim>\<open>time.Time{}\<close>: January 1, year 1, 00:00:00 UTC.\<close>

definition zeroTime :: Time where
  "zeroTime = time_Unix (- 62135596800)"

text \<open>\<^verbatim>\<open>t.Add(d)\<close> returns a new value; \<^verbatim>\<open>d\<close> is a duration in nanoseconds.\<close>

definition Add :: "Time \<Rightarrow> int \<Rightarrow> Time" where
  "Add t d = t + d"

definition time_Hour :: int where
  "time_Hour = 3600 * 1000000000"

text \<open>
  The proleptic Gregorian calendar: the number of days from 1970-01-01 to a civil date, and
  back. \<^verbatim>\<open>time.Date\<close> normalises a month outside 1..12 into the year; days, hours,
  minutes and seconds out of range overflow linearly.
\<close>

definition daysFromCivil :: "int \<Rightarrow> int \<Rightarrow> int \<Rightarrow> int" where
  "daysFromCivil year month day =
     (let y0 = year + (month - 1) div 12;
          m = (month - 1) mod 12 + 1;
          y = (if m \<le> 2 then y0 - 1 else y0);
          era = y div 400;
          yoe = y - era * 400;
          mp = (m + 9) mod 12;
          doy = (153 * mp + 2) div 5 + day - 1;
          doe = yoe * 365 + yoe div 4 - yoe div 100 + doy
      in era * 146097 + doe - 719468)"

definition civilFromDays :: "int \<Rightarrow> int \<times> int \<times> int" where
  "civilFromDays z =
     (let z1 = z + 719468;
          era = z1 div 146097;
          doe = z1 - era * 146097;
          yoe = (doe - doe div 1460 + doe div 36524 - doe div 146096) div 365;
          doy = doe - (365 * yoe + yoe div 4 - yoe div 100);
          mp = (5 * doy + 2) div 153;
          d = doy - (153 * mp + 2) div 5 + 1;
          m = (if mp < 10 then mp + 3 else mp - 9);
          y = yoe + era * 400
      in (if m \<le> 2 then y + 1 else y, m, d))"

text \<open>
  A \<^verbatim>\<open>*time.Location\<close>: the offset (seconds east of UTC) in force before the first
  transition, and the transitions \<open>(when, offset)\<close> in ascending order of \<open>when\<close>
  (Unix seconds). \<^verbatim>\<open>lookup\<close> returns the offset in force at an instant and the
  interval \<open>[start, end)\<close> in which it is in force.
\<close>

record Location =
  zoneFirst :: int
  tx :: "(int \<times> int) list"

definition alpha :: int where "alpha = - (2 ^ 63)"
definition omega :: int where "omega = 2 ^ 63 - 1"

fun lookupTx :: "int \<Rightarrow> int \<Rightarrow> (int \<times> int) list \<Rightarrow> int \<Rightarrow> int \<times> int \<times> int" where
  "lookupTx off start [] sec = (off, start, omega)"
| "lookupTx off start ((w, off') # rest) sec =
     (if sec < w then (off, start, w) else lookupTx off' w rest sec)"

definition lookup :: "Location \<Rightarrow> int \<Rightarrow> int \<times> int \<times> int" where
  "lookup l sec = lookupTx (zoneFirst l) alpha (tx l) sec"

definition UTC :: Location where
  "UTC = \<lparr>zoneFirst = 0, tx = []\<rparr>"

text \<open>
  \<^verbatim>\<open>time.Date(year, month, day, hour, min, sec, nsec, loc)\<close>: the wall clock reading is
  first taken as if it were UTC, the offset found there is subtracted, and the offset is
  looked up again when the result falls outside the interval of the first lookup.
\<close>

definition time_Date :: "int \<Rightarrow> int \<Rightarrow> int \<Rightarrow> int \<Rightarrow> int \<Rightarrow> int \<Rightarrow> int \<Rightarrow> Location \<Rightarrow> Time" where
  "time_Date year month day hour minute sec nsec loc =
     (let unix = daysFromCivil year month day * 86400 + hour * 3600 + minute * 60 + sec;
          (offset, start, end) = lookup loc unix;
          unix' = (if offset \<noteq> 0
                   then (let utc = unix - offset;
                             offset' = (if utc < start \<or> utc \<ge> end
                                        then fst (lookup loc utc) else offset)
                         in unix - offset')
                   else unix)
      in unix' * 1000000000 + nsec)"

text \<open>The calendar date \<open>(year, month, day)\<close> of an instant in a location.\<close>

definition civil :: "Location \<Rightarrow> Time \<Rightarrow> int \<times> int \<times> int" where
  "civil loc t =
     (let sec = t div 1000000000
      in civilFromDays ((sec + fst (lookup loc sec)) div 86400))"

definition Year :: "Location \<Rightarrow> Time \<Rightarrow> int" where
  "Year loc t = fst (civil loc t)"

definition Month :: "Location \<Rightarrow> Time \<Rightarrow> int" where
  "Month loc t = fst (snd (civil loc t))"

definition Day :: "Location \<Rightarrow> Time \<Rightarrow> int" where
  "Day loc t = snd (snd (civil loc t))"

text \<open>
  \<^verbatim>\<open>kyivLocation\<close> is loaded from the time zone database (\<^verbatim>\<open>Europe/Kyiv\<close>), which
  is not part of the repository. The model holds the part of that zone that the seed
  timestamps and the examples below fall into: Eastern European Time (UTC+2) with summer time
  (UTC+3) between 01:00 UTC on the last Sunday of March and 01:00 UTC on the last Sunday of
  October, for the years 2021 to 2026.
\<close>

definition kyivLocation :: Location where
  "kyivLocation = \<lparr>zoneFirst = 7200, tx = [
     (1616893200, 10800), (1635642000, 7200),
     (1648342800, 10800), (1667091600, 7200),
     (1679792400, 10800), (1698541200, 7200),
     (1711846800, 10800), (1729990800, 7200),
     (1743296400, 10800), (1761440400, 7200),
     (1774746000, 10800), (1792890000, 7200)]\<rparr>"

section \<open>State store (AlertData)\<close>

record Status =
  Region :: ID
  Enabled :: bool
  UpdatedAt :: Time
  IsHistory :: bool

text \<open>
  \<^verbatim>\<open>AlertData\<close>: the map from region to status. The read/write lock of the source
  serialises the calls; the model is their sequential effect. The source stores the pointer
  it is given; no caller writes through a pointer after handing it to \<^verbatim>\<open>set\<close>, so the
  map holds the status by value.
\<close>

record AlertData =
  data :: "ID \<rightharpoonup> Status"

text \<open>\<^verbatim>\<open>AlertData.set\<close>; a nil pointer is \<open>None\<close>.\<close>

definition AlertData_set :: "AlertData \<Rightarrow> Status option \<Rightarrow> AlertData" where
  "AlertData_set r newStatus =
     (case newStatus of
        None \<Rightarrow> r
      | Some st \<Rightarrow>
          (case data r (Region st) of
             Some currentStatus \<Rightarrow>
               if Before (UpdatedAt st) (UpdatedAt currentStatus) then r
               else r\<lparr>data := (data r)(Region st \<mapsto> st)\<rparr>
           | None \<Rightarrow> r\<lparr>data := (data r)(Region st \<mapsto> st)\<rparr>))"

text \<open>
  \<^verbatim>\<open>AlertData.GetByRegion\<close> returns Go's pair \<^verbatim>\<open>(Status, error)\<close>, with the zero status
  beside an error. It only reads; the store is returned beside the result so that the absence
  of an effect can be stated.
\<close>

definition Status_zero :: Status where
  "Status_zero = \<lparr>Region = 0, Enabled = False, UpdatedAt = zeroTime, IsHistory = False\<rparr>"

definition ID_String :: "ID \<Rightarrow> string" where
  "ID_String rid = (case map_of namesById rid of Some name \<Rightarrow> name | None \<Rightarrow> [])"

definition GetByRegion :: "AlertData \<Rightarrow> ID \<Rightarrow> (Status \<times> error option) \<times> AlertData" where
  "GetByRegion r rid =
     (case data r rid of
        None \<Rightarrow> ((Status_zero, Some (Err (''scraper: invalid region '' @ [CHR 0x27] @ ID_String rid @ [CHR 0x27]))), r)
      | Some currentStatus \<Rightarrow> ((currentStatus, None), r))"

text \<open>\<^verbatim>\<open>newAlertData\<close>: one \<^verbatim>\<open>set\<close> per region of the registry, then the two seeds.\<close>

definition newAlertData :: AlertData where
  "newAlertData =
     (let alertData = \<lparr>data = Map.empty\<rparr>;
          alertData = foldl (\<lambda>ad (rid, _).
              AlertData_set ad (Some \<lparr>Region = rid, Enabled = False,
                                     UpdatedAt = zeroTime, IsHistory = True\<rparr>))
            alertData Iterator;
          alertData = AlertData_set alertData
            (Some \<lparr>Region = Crimea, Enabled = True,
                   UpdatedAt = time_Date 2022 12 11 0 22 0 0 kyivLocation, IsHistory = True\<rparr>);
          alertData = AlertData_set alertData
            (Some \<lparr>Region = Luhansk, Enabled = True,
                   UpdatedAt = time_Date 2022 4 4 19 45 0 0 kyivLocation, IsHistory = True\<rparr>)
      in alertData)"

section \<open>Message parser\<close>

subsection \<open>Reading a time of day (\<^verbatim>\<open>time.Parse\<close> with the layout \<^verbatim>\<open>time.TimeOnly\<close>)\<close>

text \<open>The hour and the minute of an instant in a location.\<close>

definition Hour :: "Location \<Rightarrow> Time \<Rightarrow> int" where
  "Hour loc t =
     (let sec = t div 1000000000
      in ((sec + fst (lookup loc sec)) mod 86400) div 3600)"

definition Minute :: "Location \<Rightarrow> Time \<Rightarrow> int" where
  "Minute loc t =
     (let sec = t div 1000000000
      in ((sec + fst (lookup loc sec)) mod 3600) div 60)"

definition isDigit :: "char \<Rightarrow> bool" where
  "isDigit c = (48 \<le> (of_char c :: nat) \<and> (of_char c :: nat) \<le> 57)"

definition digitVal :: "char \<Rightarrow> int" where
  "digitVal c = int (of_char c) - 48"

text \<open>
  \<^verbatim>\<open>getnum\<close> of package time: one or two leading digits; two are required when
  \<open>fixed\<close>. \<open>None\<close> is its error.
\<close>

definition getnum :: "string \<Rightarrow> bool \<Rightarrow> (int \<times> string) option" where
  "getnum s fixed =
     (case s of
        [] \<Rightarrow> None
      | c # r \<Rightarrow>
          if \<not> isDigit c then None
          else (case r of
                  [] \<Rightarrow> if fixed then None else Some (digitVal c, r)
                | c2 # r2 \<Rightarrow>
                    if \<not> isDigit c2 then (if fixed then None else Some (digitVal c, r))
                    else Some (digitVal c * 10 + digitVal c2, r2)))"

definition stripPrefix :: "string \<Rightarrow> string \<Rightarrow> string option" where
  "stripPrefix p s = (if take (length p) s = p then Some (drop (length p) s) else None)"

text \<open>
  \<^verbatim>\<open>time.Parse(time.TimeOnly, value)\<close>, the layout being \<^verbatim>\<open>15:04:05\<close>: an hour of one
  or two digits, a colon, a two-digit minute, a colon, a two-digit second, an optional
  fraction of a second (a period or a comma followed by digits, of which nine count), and
  nothing after it. Each field is checked against its range as soon as it is read. The
  result is that time of day on January 1 of year 0, UTC.
\<close>

definition time_Parse_TimeOnly :: "string \<Rightarrow> Time \<times> error option" where
  "time_Parse_TimeOnly v =
     (let bad = (\<lambda>msg. (zeroTime, Some (ParseError v msg)))
      in case getnum v False of
           None \<Rightarrow> bad ''''
         | Some (hour, v1) \<Rightarrow>
             if hour < 0 \<or> 24 \<le> hour then bad '': hour out of range''
             else (case stripPrefix '':'' v1 of
                     None \<Rightarrow> bad ''''
                   | Some v2 \<Rightarrow>
                       (case getnum v2 True of
                          None \<Rightarrow> bad ''''
                        | Some (minute, v3) \<Rightarrow>
                            if minute < 0 \<or> 60 \<le> minute then bad '': minute out of range''
                            else (case stripPrefix '':'' v3 of
                                    None \<Rightarrow> bad ''''
                                  | Some v4 \<Rightarrow>
                                      (case getnum v4 True of
                                         None \<Rightarrow> bad ''''
                                       | Some (sec, v5) \<Rightarrow>
                                           if sec < 0 \<or> 60 \<le> sec then bad '': second out of range''
                                           else
                                             (let frac = (2 \<le> length v5 \<and> (hd v5 = CHR ''.'' \<or> hd v5 = CHR '','')
                                                          \<and> isDigit (v5 ! 1));
                                                  ds = (if frac then takeWhile isDigit (tl v5) else []);
                                                  ds9 = take 9 ds;
                                                  nsec = foldl (\<lambda>n c. n * 10 + digitVal c) 0 ds9
                                                           * 10 ^ (9 - length ds9);
                                                  v6 = (if frac then drop (length ds) (tl v5) else v5)
                                              in if v6 \<noteq> [] then bad '': extra text: '' 
                                                 else (time_Date 0 1 1 hour minute sec nsec UTC, None)))))))"

subsection \<open>The status line (\<^verbatim>\<open>alertStatusRegexp\<close>)\<close>

text \<open>
  The three marker glyphs of the character class, each the four UTF-8 bytes of its code point
  (U+1F534, U+1F7E2, U+1F7E1), and the two status phrases of the alternation, in its order:
  the all-clear phrase, then the alert phrase.
\<close>

definition glyphs :: "string list" where
  "glyphs = [[CHR 0xF0, CHR 0x9F, CHR 0x94, CHR 0xB4],
             [CHR 0xF0, CHR 0x9F, CHR 0x9F, CHR 0xA2],
             [CHR 0xF0, CHR 0x9F, CHR 0x9F, CHR 0xA1]]"

definition phraseAllClear :: string where
  "phraseAllClear = [CHR 0xD0, CHR 0x92, CHR 0xD1, CHR 0x96, CHR 0xD0, CHR 0xB4, CHR 0xD0, CHR 0xB1,
     CHR 0xD1, CHR 0x96, CHR 0xD0, CHR 0xB9, CHR '' '', CHR 0xD1, CHR 0x82,
     CHR 0xD1, CHR 0x80, CHR 0xD0, CHR 0xB8, CHR 0xD0, CHR 0xB2, CHR 0xD0, CHR 0xBE,
     CHR 0xD0, CHR 0xB3, CHR 0xD0, CHR 0xB8]"

definition phraseAlert :: string where
  "phraseAlert = [CHR 0xD0, CHR 0x9F, CHR 0xD0, CHR 0xBE, CHR 0xD0, CHR 0xB2, CHR 0xD1, CHR 0x96,
     CHR 0xD1, CHR 0x82, CHR 0xD1, CHR 0x80, CHR 0xD1, CHR 0x8F, CHR 0xD0, CHR 0xBD,
     CHR 0xD0, CHR 0xB0, CHR '' '', CHR 0xD1, CHR 0x82, CHR 0xD1, CHR 0x80,
     CHR 0xD0, CHR 0xB8, CHR 0xD0, CHR 0xB2, CHR 0xD0, CHR 0xBE, CHR 0xD0, CHR 0xB3,
     CHR 0xD0, CHR 0xB0]"

text \<open>The first alternative that is a prefix of the input, with the rest of the input.\<close>

fun firstPrefix :: "string list \<Rightarrow> string \<Rightarrow> (string \<times> string) option" where
  "firstPrefix [] s = None"
| "firstPrefix (p # ps) s =
     (case stripPrefix p s of Some rest \<Rightarrow> Some (p, rest) | None \<Rightarrow> firstPrefix ps s)"

text \<open>The lines of a text: the pieces between line feeds.\<close>

fun splitLines :: "string \<Rightarrow> string list" where
  "splitLines [] = [[]]"
| "splitLines (c # cs) =
     (if c = CHR 0x0A then [] # splitLines cs
      else (case splitLines cs of
              l # ls \<Rightarrow> (c # l) # ls
            | [] \<Rightarrow> [[c]]))"

text \<open>\<^verbatim>\<open>\d\d\<close>: two ASCII digits.\<close>

definition twoDigits :: "string \<Rightarrow> (string \<times> string) option" where
  "twoDigits s =
     (case s of
        d1 # d2 # rest \<Rightarrow> if isDigit d1 \<and> isDigit d2 then Some ([d1, d2], rest) else None
      | _ \<Rightarrow> None)"

text \<open>
  \<^verbatim>\<open>(.*?)\.?$\<close> on the rest of a line: the reluctant group takes the shortest prefix
  after which an optional period ends the line, that is, the rest of the line without one
  final period.
\<close>

definition stripDot :: "string \<Rightarrow> string" where
  "stripDot s = (if s \<noteq> [] \<and> last s = CHR ''.'' then butlast s else s)"

text \<open>
  One line against the pattern between \<^verbatim>\<open>^\<close> and \<^verbatim>\<open>$\<close>: a glyph, a space,
  \<^verbatim>\<open>(\d\d:\d\d)\<close>, a space, one of the two phrases, the word \<^verbatim>\<open> v \<close> (a space, the
  Cyrillic letter ve, a space), the region. The result is the match and its three groups. The
  two phrases begin with different letters, so trying them in order needs no backtracking.
\<close>

definition matchLine :: "string \<Rightarrow> string list option" where
  "matchLine l =
     (case firstPrefix glyphs l of
        None \<Rightarrow> None
      | Some (_, r1) \<Rightarrow>
     (case stripPrefix '' '' r1 of
        None \<Rightarrow> None
      | Some r2 \<Rightarrow>
     (case twoDigits r2 of
        None \<Rightarrow> None
      | Some (hh, r3) \<Rightarrow>
     (case stripPrefix '':'' r3 of
        None \<Rightarrow> None
      | Some r4 \<Rightarrow>
     (case twoDigits r4 of
        None \<Rightarrow> None
      | Some (mm, r5) \<Rightarrow>
     (case stripPrefix '' '' r5 of
        None \<Rightarrow> None
      | Some r6 \<Rightarrow>
     (case firstPrefix [phraseAllClear, phraseAlert] r6 of
        None \<Rightarrow> None
      | Some (phrase, r7) \<Rightarrow>
     (case stripPrefix [CHR '' '', CHR 0xD0, CHR 0xB2, CHR '' ''] r7 of
        None \<Rightarrow> None
      | Some r8 \<Rightarrow> Some [l, hh @ '':'' @ mm, phrase, stripDot r8]))))))))"

text \<open>
  \<^verbatim>\<open>alertStatusRegexp.FindStringSubmatch\<close>: with the flag \<^verbatim>\<open>(?m)\<close> the pattern is
  tried at the start of each line, and the leftmost match wins; no match is the empty slice.
\<close>

definition FindStringSubmatch :: "string \<Rightarrow> string list" where
  "FindStringSubmatch s =
     (case List.map_filter matchLine (splitLines s) of [] \<Rightarrow> [] | m # _ \<Rightarrow> m)"

subsection \<open>Messages (package client, as far as the program reads them)\<close>

datatype MessageContent = MessageText string | MessageOther

datatype MessageForwardInfo = MessageForwardInfo

text \<open>\<^verbatim>\<open>Date\<close> is an \<^verbatim>\<open>int32\<close> of Unix seconds, which the program widens to \<^verbatim>\<open>int64\<close>.\<close>

record Message =
  Id :: int
  Date :: int
  ForwardInfo :: "MessageForwardInfo option"
  Content :: MessageContent

subsection \<open>\<^verbatim>\<open>parseMessage\<close>\<close>

text \<open>
  \<^verbatim>\<open>time.Unix\<close> yields a time in the location \<^verbatim>\<open>time.Local\<close> of the process, in which
  the year, month and day are then read; it is the parameter \<open>Local\<close>. The result of
  \<^verbatim>\<open>updatedAt.Add(-24 * time.Hour)\<close> is not assigned in the source; the model binds it to
  \<open>unused\<close>. The result is Go's pair \<^verbatim>\<open>(*Status, error)\<close>.
\<close>

definition parseMessage :: "Location \<Rightarrow> Message \<Rightarrow> Status option \<times> error option" where
  "parseMessage Local message =
     (case Content message of
        MessageOther \<Rightarrow> (None, None)
      | MessageText messageTextStr \<Rightarrow>
          (let match = FindStringSubmatch messageTextStr
           in if length match < 3 then (None, None)
              else
                (let messageAt = time_Unix (Date message);
                     timeOnly = match ! 1 @ '':00''
                 in case time_Parse_TimeOnly timeOnly of
                      (_, Some err) \<Rightarrow>
                        (None, Some (Wrap (''failed to parse time: '' @ timeOnly @ '': '') err))
                    | (parsedTime, None) \<Rightarrow>
                        (let updatedAt = time_Date
                               (Year Local messageAt) (Month Local messageAt) (Day Local messageAt)
                               (Hour UTC parsedTime) (Minute UTC parsedTime)
                               0 0 kyivLocation;
                             unused = (if After updatedAt messageAt
                                       then Some (Add updatedAt (- 24 * time_Hour)) else None);
                             raidStatusStr = match ! 2
                         in if raidStatusStr \<noteq> phraseAllClear \<and> raidStatusStr \<noteq> phraseAlert
                            then (None, None)
                            else
                              (let raidEnabled = (raidStatusStr = phraseAlert);
                                   regionStr = match ! 3
                               in case region_Parse regionStr of
                                    (_, Some err) \<Rightarrow> (None, None)
                                  | (regionId, None) \<Rightarrow>
                                      (Some \<lparr>Region = regionId, Enabled = raidEnabled,
                                              UpdatedAt = updatedAt, IsHistory = False\<rparr>, None))))))"

section \<open>Scrape engine (TgScraper)\<close>

text \<open>
  A channel is modelled by what has been sent on it and whether it has been closed. Closing
  a closed channel panics in Go; here it has no result.
\<close>

record 'a chan =
  sent :: "'a list"
  closed :: bool

definition make_chan :: "'a chan" where
  "make_chan = \<lparr>sent = [], closed = False\<rparr>"

definition close_chan :: "'a chan \<Rightarrow> 'a chan option" where
  "close_chan c = (if closed c then None else Some (c\<lparr>closed := True\<rparr>))"

text \<open>A call either panics or returns.\<close>

datatype 'a result = Panics string | Returns 'a

text \<open>
  The client and the context are handles to the outside world; the model keeps the handle
  (to tell it from nil) and takes what the outside world does from a script, see below.
\<close>

datatype TgClient = TgClient

datatype Context = Context

text \<open>\<^verbatim>\<open>once\<close> holds whether the \<^verbatim>\<open>sync.Once\<close> has fired.\<close>

record TgScraper =
  client :: "TgClient option"
  historyFromDate :: Time
  updateDiscardTimeout :: int
  once :: bool
  historyDone :: "unit chan"
  alertData :: AlertData
  updates :: "Status chan option"

definition airAlertUaChannelID :: int where
  "airAlertUaChannelID = - 1001766138888"

text \<open>\<^verbatim>\<open>NewTgScraper\<close>; \<open>now\<close> is the reading of \<^verbatim>\<open>time.Now()\<close>.\<close>

definition NewTgScraper :: "Time \<Rightarrow> TgClient option \<Rightarrow> (TgScraper \<Rightarrow> TgScraper) list \<Rightarrow> TgScraper" where
  "NewTgScraper now cl opts =
     (let scraper = \<lparr>client = cl,
                      historyFromDate = Add now (- 2 * 24 * time_Hour),
                      updateDiscardTimeout = 0,
                      once = False,
                      historyDone = make_chan,
                      alertData = newAlertData,
                      updates = None\<rparr>
      in foldl (\<lambda>s opt. opt s) scraper opts)"

definition WithHistoryFromDate :: "Time \<Rightarrow> TgScraper \<Rightarrow> TgScraper" where
  "WithHistoryFromDate t s = s\<lparr>historyFromDate := t\<rparr>"

definition WithUpdateDiscardTimeout :: "int \<Rightarrow> TgScraper \<Rightarrow> TgScraper" where
  "WithUpdateDiscardTimeout timeout s = s\<lparr>updateDiscardTimeout := timeout\<rparr>"

definition UpdatesChan :: "TgScraper \<Rightarrow> Status chan \<times> TgScraper" where
  "UpdatesChan r =
     (case updates r of
        None \<Rightarrow> (make_chan, r\<lparr>updates := Some make_chan\<rparr>)
      | Some c \<Rightarrow> (c, r))"

subsection \<open>The outside world\<close>

record GetChatHistoryRequest =
  ChatId :: int
  FromMessageId :: int
  Offset :: int
  Limit :: int
  OnlyLocal :: bool

text \<open>
  One round of the loop of \<^verbatim>\<open>getMessagesForPeriod\<close> asks the outside world twice: what
  \<^verbatim>\<open>ctx.Err()\<close> reports, and what the client answers to the request.
\<close>

record histStep =
  ctxErr :: "error option"
  answer :: "GetChatHistoryRequest \<Rightarrow> error + Message list"

text \<open>
  An update of the listener: a new message, or an update of another type.
\<close>

datatype Update = UpdateNewMessage Message | UpdateOther

text \<open>
  One round of the loop of \<^verbatim>\<open>listenUpdates\<close>: the branch of the \<^verbatim>\<open>select\<close> that fires.
  Either the context is done, with its error, or the listener delivers an update (nil is
  \<open>None\<close>). \<open>delivered\<close> tells how the \<^verbatim>\<open>select\<close> of \<^verbatim>\<open>sendUpdate\<close> ends when that
  update leads to one: the status is sent, or the context (with the discard timeout, when
  there is one) is done first.
\<close>

datatype event = CtxDone error | Received "Update option" (delivered: bool)

text \<open>What the outside world does during one run.\<close>

record Env =
  histSteps :: "histStep list"
  events :: "event list"

subsection \<open>Backfill\<close>

definition isText :: "MessageContent \<Rightarrow> bool" where
  "isText c = (case c of MessageText _ \<Rightarrow> True | MessageOther \<Rightarrow> False)"

text \<open>
  The loop of \<^verbatim>\<open>getMessagesForPeriod\<close>, one script entry per round. The result is Go's
  pair \<^verbatim>\<open>([]*client.Message, error)\<close> and the rest of the script; \<open>None\<close> when the script
  ends before the loop does.
\<close>

fun getMessagesLoop ::
  "Time \<Rightarrow> histStep list \<Rightarrow> int \<Rightarrow> Message list
     \<Rightarrow> ((Message list \<times> error option) \<times> histStep list) option" where
  "getMessagesLoop historyFrom [] fromMessageId messagesForPeriod = None"
| "getMessagesLoop historyFrom (s # ss) fromMessageId messagesForPeriod =
     (case ctxErr s of
        Some e \<Rightarrow> Some (([], Some e), ss)
      | None \<Rightarrow>
          (case answer s \<lparr>ChatId = airAlertUaChannelID, FromMessageId = fromMessageId,
                           Offset = 0, Limit = 1, OnlyLocal = False\<rparr> of
             Inl e \<Rightarrow> Some (([], Some e), ss)
           | Inr [] \<Rightarrow> Some ((messagesForPeriod, None), ss)
           | Inr (message # _) \<Rightarrow>
               if Before (time_Unix (Date message)) historyFrom
               then Some ((messagesForPeriod, None), ss)
               else if ForwardInfo message \<noteq> None
               then getMessagesLoop historyFrom ss (Id message) messagesForPeriod
               else if \<not> isText (Content message)
               then getMessagesLoop historyFrom ss (Id message) messagesForPeriod
               else getMessagesLoop historyFrom ss (Id message) (messagesForPeriod @ [message])))"

definition getMessagesForPeriod ::
  "Time \<Rightarrow> histStep list \<Rightarrow> ((Message list \<times> error option) \<times> histStep list) option" where
  "getMessagesForPeriod historyFrom steps = getMessagesLoop historyFrom steps 0 []"

text \<open>The loop of \<^verbatim>\<open>history\<close> over the reversed batch.\<close>

fun historyLoop :: "Location \<Rightarrow> AlertData \<Rightarrow> Message list \<Rightarrow> error option \<times> AlertData" where
  "historyLoop Local ad [] = (None, ad)"
| "historyLoop Local ad (message # messages) =
     (case parseMessage Local message of
        (_, Some err) \<Rightarrow> (Some (Wrap ''unable to scrape history: '' err), ad)
      | (None, None) \<Rightarrow> historyLoop Local ad messages
      | (Some status, None) \<Rightarrow>
          historyLoop Local (AlertData_set ad (Some (status\<lparr>IsHistory := True\<rparr>))) messages)"

text \<open>
  \<^verbatim>\<open>history\<close>. The deferred \<^verbatim>\<open>close(r.historyDone)\<close> runs on every way out of the body.
\<close>

definition history ::
  "Location \<Rightarrow> TgScraper \<Rightarrow> histStep list
     \<Rightarrow> (error option result \<times> TgScraper \<times> histStep list) option" where
  "history Local r steps =
     (case getMessagesForPeriod (historyFromDate r) steps of
        None \<Rightarrow> None
      | Some ((messages, err), rest) \<Rightarrow>
          (let (ret, ad) = (if err \<noteq> None then (err, alertData r)
                            else historyLoop Local (alertData r) (rev messages));
               r1 = r\<lparr>alertData := ad\<rparr>
           in case close_chan (historyDone r1) of
                None \<Rightarrow> Some (Panics ''close of closed channel'', r1, rest)
              | Some c \<Rightarrow> Some (Returns ret, r1\<lparr>historyDone := c\<rparr>, rest)))"

text \<open>
  \<^verbatim>\<open>WaitForHistory\<close>: the values that the \<^verbatim>\<open>select\<close> can return in a state of the engine
  and of the context (\<open>None\<close> while the context is not done, else its error). A receive from
  \<^verbatim>\<open>historyDone\<close>, on which nothing is ever sent, is ready when the channel is closed. The
  empty set means that the call blocks.
\<close>

definition WaitForHistory :: "TgScraper \<Rightarrow> error option \<Rightarrow> error option set" where
  "WaitForHistory r ctxDone =
     (if closed (historyDone r) then {None} else {})
       \<union> (case ctxDone of None \<Rightarrow> {} | Some e \<Rightarrow> {Some e})"

subsection \<open>Live updates\<close>

text \<open>
  \<^verbatim>\<open>sendUpdate\<close>: nothing without a channel; else the \<^verbatim>\<open>select\<close> ends as the script says.
\<close>

definition sendUpdate :: "TgScraper \<Rightarrow> bool \<Rightarrow> Status \<Rightarrow> TgScraper" where
  "sendUpdate r dlv status =
     (case updates r of
        None \<Rightarrow> r
      | Some c \<Rightarrow> if dlv then r\<lparr>updates := Some (c\<lparr>sent := sent c @ [status]\<rparr>)\<rparr> else r)"

text \<open>
  The loop of \<^verbatim>\<open>listenUpdates\<close>, one script entry per round; it only ends with an error.
  \<open>None\<close> when the script ends before the loop does.
\<close>

fun listenLoop :: "Location \<Rightarrow> TgScraper \<Rightarrow> event list \<Rightarrow> (error \<times> TgScraper \<times> event list) option" where
  "listenLoop Local r [] = None"
| "listenLoop Local r (CtxDone e # es) = Some (e, r, es)"
| "listenLoop Local r (Received None dlv # es) = Some (Err ''received nil update'', r, es)"
| "listenLoop Local r (Received (Some UpdateOther) dlv # es) = listenLoop Local r es"
| "listenLoop Local r (Received (Some (UpdateNewMessage message)) dlv # es) =
     (case parseMessage Local message of
        (_, Some err) \<Rightarrow> Some (Wrap ''unable to scrape update: '' err, r, es)
      | (None, None) \<Rightarrow> listenLoop Local r es
      | (Some status, None) \<Rightarrow>
          listenLoop Local
            (sendUpdate (r\<lparr>alertData := AlertData_set (alertData r) (Some status)\<rparr>) dlv status)
            es)"

text \<open>\<^verbatim>\<open>closeUpdates\<close>, deferred by \<^verbatim>\<open>listenUpdates\<close>.\<close>

definition closeUpdates :: "TgScraper \<Rightarrow> TgScraper option" where
  "closeUpdates r =
     (case updates r of
        None \<Rightarrow> Some r
      | Some c \<Rightarrow> (case close_chan c of
                     None \<Rightarrow> None
                   | Some c' \<Rightarrow> Some (r\<lparr>updates := Some c'\<rparr>)))"

definition listenUpdates ::
  "Location \<Rightarrow> TgScraper \<Rightarrow> event list
     \<Rightarrow> (error option result \<times> TgScraper \<times> event list) option" where
  "listenUpdates Local r evs =
     (case listenLoop Local r evs of
        None \<Rightarrow> None
      | Some (err, r1, rest) \<Rightarrow>
          (case closeUpdates r1 of
             None \<Rightarrow> Some (Panics ''close of closed channel'', r1, rest)
           | Some r2 \<Rightarrow> Some (Returns (Some err), r2, rest)))"

subsection \<open>Run\<close>

text \<open>
  \<^verbatim>\<open>run\<close> starts \<^verbatim>\<open>history\<close> and \<^verbatim>\<open>listenUpdates\<close> in one \<^verbatim>\<open>errgroup\<close> and waits for
  both; \<^verbatim>\<open>Wait\<close> returns the first error that one of them returned. How the two
  interleave is not fixed by the program. The model runs them under one schedule, the one
  in which \<^verbatim>\<open>history\<close> has returned before \<^verbatim>\<open>listenUpdates\<close> takes its first event, so
  an error of \<^verbatim>\<open>history\<close> is the first.
\<close>

definition run :: "Location \<Rightarrow> TgScraper \<Rightarrow> Env \<Rightarrow> (error option result \<times> TgScraper) option" where
  "run Local r env =
     (case history Local r (histSteps env) of
        None \<Rightarrow> None
      | Some (Panics p, r1, _) \<Rightarrow> Some (Panics p, r1)
      | Some (Returns err1, r1, _) \<Rightarrow>
          (case listenUpdates Local r1 (events env) of
             None \<Rightarrow> None
           | Some (Panics p, r2, _) \<Rightarrow> Some (Panics p, r2)
           | Some (Returns err2, r2, _) \<Rightarrow>
               Some (Returns (case err1 of Some e \<Rightarrow> Some e | None \<Rightarrow> err2), r2)))"

text \<open>
  \<^verbatim>\<open>Run\<close>. The two checks come first; \<^verbatim>\<open>r.once.Do\<close> calls its argument when the latch has
  not fired, and marks it fired when the argument is done; \<^verbatim>\<open>err\<close> stays nil otherwise.
\<close>

definition Run ::
  "Location \<Rightarrow> TgScraper \<Rightarrow> Context option \<Rightarrow> Env \<Rightarrow> (error option result \<times> TgScraper) option" where
  "Run Local r ctx env =
     (if client r = None
      then Some (Panics ''scraper: use scraper.NewTgScraper() to create *TgScraper instance'', r)
      else if ctx = None
      then Some (Panics ''scraper: nil context'', r)
      else if once r
      then Some (Returns None, r)
      else (case run Local r env of
              None \<Rightarrow> None
            | Some (Panics p, r') \<Rightarrow> Some (Panics p, r'\<lparr>once := True\<rparr>)
            | Some (Returns err, r') \<Rightarrow>
                Some (Returns (case err of
                                 Some e \<Rightarrow> Some (Wrap ''scraper: '' e)
                               | None \<Rightarrow> None),
                      r'\<lparr>once := True\<rparr>)))"

section \<open>Notions used in the statements\<close>

text \<open>A sequence of \<^verbatim>\<open>set\<close> calls, applied in order.\<close>

definition setAll :: "AlertData \<Rightarrow> Status list \<Rightarrow> AlertData" where
  "setAll r sts = foldl (\<lambda>r st. AlertData_set r (Some st)) r sts"

text \<open>The \<^verbatim>\<open>UpdatedAt\<close> values of the calls for one region, in call order.\<close>

definition stamps :: "ID \<Rightarrow> Status list \<Rightarrow> Time list" where
  "stamps rid sts = map UpdatedAt (filter (\<lambda>st. Region st = rid) sts)"

text \<open>The status that \<^verbatim>\<open>newAlertData\<close> first stores for a region.\<close>

definition zeroStatus :: "ID \<Rightarrow> Status" where
  "zeroStatus rid = \<lparr>Region = rid, Enabled = False, UpdatedAt = zeroTime, IsHistory = True\<rparr>"

text \<open>
  The stores an engine can hold: the one built by \<^verbatim>\<open>newAlertData\<close>, changed by the two
  callers of \<^verbatim>\<open>set\<close> outside the constructor, \<^verbatim>\<open>history\<close> (which marks the parsed status
  as history) and \<^verbatim>\<open>listenUpdates\<close>.
\<close>

inductive reachable :: "Location \<Rightarrow> AlertData \<Rightarrow> bool" for Local :: Location where
  created: "reachable Local newAlertData"
| backfilled:
    "reachable Local ad \<Longrightarrow> parseMessage Local message = (Some status, None) \<Longrightarrow>
     reachable Local (AlertData_set ad (Some (status\<lparr>IsHistory := True\<rparr>)))"
| updated:
    "reachable Local ad \<Longrightarrow> parseMessage Local message = (Some status, None) \<Longrightarrow>
     reachable Local (AlertData_set ad (Some status))"

text \<open>The request that \<^verbatim>\<open>getMessagesForPeriod\<close> sends with a given cursor.\<close>

definition historyRequest :: "int \<Rightarrow> GetChatHistoryRequest" where
  "historyRequest fromMessageId =
     \<lparr>ChatId = airAlertUaChannelID, FromMessageId = fromMessageId,
      Offset = 0, Limit = 1, OnlyLocal = False\<rparr>"

text \<open>
  A script delivers the messages \<open>ms\<close>, one page each, to a walk that starts with the
  cursor \<open>cursor\<close>: in each round the context is not done and the client answers the request
  of that round with a page whose first message is the next of \<open>ms\<close>.
\<close>

fun delivers :: "histStep list \<Rightarrow> int \<Rightarrow> Message list \<Rightarrow> bool" where
  "delivers [] cursor [] = True"
| "delivers (s # ss) cursor (m # ms) =
     (ctxErr s = None
      \<and> (case answer s (historyRequest cursor) of
            Inr (m' # _) \<Rightarrow> m' = m
          | _ \<Rightarrow> False)
      \<and> delivers ss (Id m) ms)"
| "delivers _ _ _ = False"

text \<open>The cursor after the messages \<open>ms\<close>.\<close>

definition cursorAfter :: "int \<Rightarrow> Message list \<Rightarrow> int" where
  "cursorAfter cursor ms = (if ms = [] then cursor else Id (last ms))"

text \<open>
  A round ends the history: the context is not done and the client answers with an empty
  page, or with a message delivered before the start of the period.
\<close>

definition ends :: "histStep \<Rightarrow> int \<Rightarrow> Time \<Rightarrow> bool" where
  "ends s cursor historyFrom =
     (ctxErr s = None
      \<and> (case answer s (historyRequest cursor) of
            Inl _ \<Rightarrow> False
          | Inr [] \<Rightarrow> True
          | Inr (m # _) \<Rightarrow> Before (time_Unix (Date m)) historyFrom))"

text \<open>The messages that the walk keeps: not forwarded, and text.\<close>

definition kept :: "Message \<Rightarrow> bool" where
  "kept m = (ForwardInfo m = None \<and> isText (Content m))"

text \<open>A script entry in which the context is not done and the client answers with a page.\<close>

definition page :: "Message list \<Rightarrow> histStep" where
  "page ms = \<lparr>ctxErr = None, answer = (\<lambda>_. Inr ms)\<rparr>"

text \<open>A script entry in which the client fails, and one in which the context is done.\<close>

definition clientFails :: "error \<Rightarrow> histStep" where
  "clientFails e = \<lparr>ctxErr = None, answer = (\<lambda>_. Inl e)\<rparr>"

definition cancelled :: "error \<Rightarrow> histStep" where
  "cancelled e = \<lparr>ctxErr = Some e, answer = (\<lambda>_. Inr [])\<rparr>"

text \<open>
  What \<^verbatim>\<open>history\<close> does with one message of the batch that \<^verbatim>\<open>parseMessage\<close> takes without
  error: a status is marked as history and merged, a line that is no status is passed over.
\<close>

definition mergeParsed :: "Location \<Rightarrow> AlertData \<Rightarrow> Message \<Rightarrow> AlertData" where
  "mergeParsed Local ad m =
     (case fst (parseMessage Local m) of
        None \<Rightarrow> ad
      | Some status \<Rightarrow> AlertData_set ad (Some (status\<lparr>IsHistory := True\<rparr>)))"

section \<open>Example inputs\<close>

text \<open>
  The messages of the repository's test, and others used below. The texts are written as
  their UTF-8 bytes; a transliteration is given.
\<close>

text \<open>
  The line \<open>(green circle) 19:46 Vidbii tryvohy v Odeska oblast.\<close> followed by two more
  lines, delivered 2024-08-19 19:46:52 in Kyiv (16:46:52 UTC).
\<close>

definition exampleClear :: Message where
  "exampleClear =
     \<lparr>Id = 101, Date = 1724086012, ForwardInfo = None,
      Content = MessageText
        [CHR 0xF0, CHR 0x9F, CHR 0x9F, CHR 0xA2, CHR '' '', CHR ''1'', CHR ''9'', CHR '':'',
         CHR ''4'', CHR ''6'', CHR '' '', CHR 0xD0, CHR 0x92, CHR 0xD1, CHR 0x96, CHR 0xD0,
         CHR 0xB4, CHR 0xD0, CHR 0xB1, CHR 0xD1, CHR 0x96, CHR 0xD0, CHR 0xB9, CHR '' '',
         CHR 0xD1, CHR 0x82, CHR 0xD1, CHR 0x80, CHR 0xD0, CHR 0xB8, CHR 0xD0, CHR 0xB2,
         CHR 0xD0, CHR 0xBE, CHR 0xD0, CHR 0xB3, CHR 0xD0, CHR 0xB8, CHR '' '', CHR 0xD0,
         CHR 0xB2, CHR '' '', CHR 0xD0, CHR 0x9E, CHR 0xD0, CHR 0xB4, CHR 0xD0, CHR 0xB5,
         CHR 0xD1, CHR 0x81, CHR 0xD1, CHR 0x8C, CHR 0xD0, CHR 0xBA, CHR 0xD0, CHR 0xB0,
         CHR '' '', CHR 0xD0, CHR 0xBE, CHR 0xD0, CHR 0xB1, CHR 0xD0, CHR 0xBB, CHR 0xD0,
         CHR 0xB0, CHR 0xD1, CHR 0x81, CHR 0xD1, CHR 0x82, CHR 0xD1, CHR 0x8C, CHR ''.'',
         CHR 0x0A, CHR 0xD0, CHR 0xA1, CHR 0xD0, CHR 0xBB, CHR 0xD1, CHR 0x96, CHR 0xD0,
         CHR 0xB4, CHR 0xD0, CHR 0xBA, CHR 0xD1, CHR 0x83, CHR 0xD0, CHR 0xB9, CHR 0xD1,
         CHR 0x82, CHR 0xD0, CHR 0xB5, CHR '' '', CHR 0xD0, CHR 0xB7, CHR 0xD0, CHR 0xB0,
         CHR '' '', CHR 0xD0, CHR 0xBF, CHR 0xD0, CHR 0xBE, CHR 0xD0, CHR 0xB4, CHR 0xD0,
         CHR 0xB0, CHR 0xD0, CHR 0xBB, CHR 0xD1, CHR 0x8C, CHR 0xD1, CHR 0x88, CHR 0xD0,
         CHR 0xB8, CHR 0xD0, CHR 0xBC, CHR 0xD0, CHR 0xB8, CHR '' '', CHR 0xD0, CHR 0xBF,
         CHR 0xD0, CHR 0xBE, CHR 0xD0, CHR 0xB2, CHR 0xD1, CHR 0x96, CHR 0xD0, CHR 0xB4,
         CHR 0xD0, CHR 0xBE, CHR 0xD0, CHR 0xBC, CHR 0xD0, CHR 0xBB, CHR 0xD0, CHR 0xB5,
         CHR 0xD0, CHR 0xBD, CHR 0xD0, CHR 0xBD, CHR 0xD1, CHR 0x8F, CHR 0xD0, CHR 0xBC,
         CHR 0xD0, CHR 0xB8, CHR ''.'', CHR 0x0A, CHR ''#'', CHR 0xD0, CHR 0x9E, CHR 0xD0,
         CHR 0xB4, CHR 0xD0, CHR 0xB5, CHR 0xD1, CHR 0x81, CHR 0xD1, CHR 0x8C, CHR 0xD0,
         CHR 0xBA, CHR 0xD0, CHR 0xB0, CHR ''_'', CHR 0xD0, CHR 0xBE, CHR 0xD0, CHR 0xB1,
         CHR 0xD0, CHR 0xBB, CHR 0xD0, CHR 0xB0, CHR 0xD1, CHR 0x81, CHR 0xD1, CHR 0x82,
         CHR 0xD1, CHR 0x8C]\<rparr>"

text \<open>
  The line \<open>(red circle) 02:15 Povitriana tryvoha v Odeska oblast\<close> followed by two more
  lines,
  delivered 2024-08-21 02:15:19 in Kyiv (2024-08-20 23:15:19 UTC).
\<close>

definition exampleAlert :: Message where
  "exampleAlert =
     \<lparr>Id = 104, Date = 1724195719, ForwardInfo = None,
      Content = MessageText
        [CHR 0xF0, CHR 0x9F, CHR 0x94, CHR 0xB4, CHR '' '', CHR ''0'', CHR ''2'', CHR '':'',
         CHR ''1'', CHR ''5'', CHR '' '', CHR 0xD0, CHR 0x9F, CHR 0xD0, CHR 0xBE, CHR 0xD0,
         CHR 0xB2, CHR 0xD1, CHR 0x96, CHR 0xD1, CHR 0x82, CHR 0xD1, CHR 0x80, CHR 0xD1,
         CHR 0x8F, CHR 0xD0, CHR 0xBD, CHR 0xD0, CHR 0xB0, CHR '' '', CHR 0xD1, CHR 0x82,
         CHR 0xD1, CHR 0x80, CHR 0xD0, CHR 0xB8, CHR 0xD0, CHR 0xB2, CHR 0xD0, CHR 0xBE,
         CHR 0xD0, CHR 0xB3, CHR 0xD0, CHR 0xB0, CHR '' '', CHR 0xD0, CHR 0xB2, CHR '' '',
         CHR 0xD0, CHR 0x9E, CHR 0xD0, CHR 0xB4, CHR 0xD0, CHR 0xB5, CHR 0xD1, CHR 0x81,
         CHR 0xD1, CHR 0x8C, CHR 0xD0, CHR 0xBA, CHR 0xD0, CHR 0xB0, CHR '' '', CHR 0xD0,
         CHR 0xBE, CHR 0xD0, CHR 0xB1, CHR 0xD0, CHR 0xBB, CHR 0xD0, CHR 0xB0, CHR 0xD1,
         CHR 0x81, CHR 0xD1, CHR 0x82, CHR 0xD1, CHR 0x8C, CHR 0x0A, CHR 0xD0, CHR 0xA1,
         CHR 0xD0, CHR 0xBB, CHR 0xD1, CHR 0x96, CHR 0xD0, CHR 0xB4, CHR 0xD0, CHR 0xBA,
         CHR 0xD1, CHR 0x83, CHR 0xD0, CHR 0xB9, CHR 0xD1, CHR 0x82, CHR 0xD0, CHR 0xB5,
         CHR '' '', CHR 0xD0, CHR 0xB7, CHR 0xD0, CHR 0xB0, CHR '' '', CHR 0xD0, CHR 0xBF,
         CHR 0xD0, CHR 0xBE, CHR 0xD0, CHR 0xB4, CHR 0xD0, CHR 0xB0, CHR 0xD0, CHR 0xBB,
         CHR 0xD1, CHR 0x8C, CHR 0xD1, CHR 0x88, CHR 0xD0, CHR 0xB8, CHR 0xD0, CHR 0xBC,
         CHR 0xD0, CHR 0xB8, CHR '' '', CHR 0xD0, CHR 0xBF, CHR 0xD0, CHR 0xBE, CHR 0xD0,
         CHR 0xB2, CHR 0xD1, CHR 0x96, CHR 0xD0, CHR 0xB4, CHR 0xD0, CHR 0xBE, CHR 0xD0,
         CHR 0xBC, CHR 0xD0, CHR 0xBB, CHR 0xD0, CHR 0xB5, CHR 0xD0, CHR 0xBD, CHR 0xD0,
         CHR 0xBD, CHR 0xD1, CHR 0x8F, CHR 0xD0, CHR 0xBC, CHR 0xD0, CHR 0xB8, CHR ''.'',
         CHR 0x0A, CHR ''#'', CHR 0xD0, CHR 0x9E, CHR 0xD0, CHR 0xB4, CHR 0xD0, CHR 0xB5,
         CHR 0xD1, CHR 0x81, CHR 0xD1, CHR 0x8C, CHR 0xD0, CHR 0xBA, CHR 0xD0, CHR 0xB0,
         CHR ''_'', CHR 0xD0, CHR 0xBE, CHR 0xD0, CHR 0xB1, CHR 0xD0, CHR 0xBB, CHR 0xD0,
         CHR 0xB0, CHR 0xD1, CHR 0x81, CHR 0xD1, CHR 0x82, CHR 0xD1, CHR 0x8C]\<rparr>"

text \<open>
  A forwarded text message with a status line for the city of Kyiv, delivered
  2024-08-20 12:00:00 UTC.
\<close>

definition exampleForwarded :: Message where
  "exampleForwarded =
     \<lparr>Id = 103, Date = 1724155200, ForwardInfo = Some MessageForwardInfo,
      Content = MessageText
        [CHR 0xF0, CHR 0x9F, CHR 0x94, CHR 0xB4, CHR '' '', CHR ''1'', CHR ''4'', CHR '':'',
         CHR ''5'', CHR ''9'', CHR '' '', CHR 0xD0, CHR 0x9F, CHR 0xD0, CHR 0xBE, CHR 0xD0,
         CHR 0xB2, CHR 0xD1, CHR 0x96, CHR 0xD1, CHR 0x82, CHR 0xD1, CHR 0x80, CHR 0xD1,
         CHR 0x8F, CHR 0xD0, CHR 0xBD, CHR 0xD0, CHR 0xB0, CHR '' '', CHR 0xD1, CHR 0x82,
         CHR 0xD1, CHR 0x80, CHR 0xD0, CHR 0xB8, CHR 0xD0, CHR 0xB2, CHR 0xD0, CHR 0xBE,
         CHR 0xD0, CHR 0xB3, CHR 0xD0, CHR 0xB0, CHR '' '', CHR 0xD0, CHR 0xB2, CHR '' '',
         CHR 0xD0, CHR 0xBC, CHR ''.'', CHR '' '', CHR 0xD0, CHR 0x9A, CHR 0xD0, CHR 0xB8,
         CHR 0xD1, CHR 0x97, CHR 0xD0, CHR 0xB2]\<rparr>"

text \<open>A message that is not text, delivered 2024-08-20 06:00:00 UTC.\<close>

definition examplePhoto :: Message where
  "examplePhoto =
     \<lparr>Id = 102, Date = 1724133600, ForwardInfo = None,
      Content = MessageOther\<rparr>"

text \<open>
  The line \<open>(red circle) 23:59 Povitriana tryvoha v Odeska oblast\<close>, delivered
  2024-01-15 00:01:00 in Kyiv (2024-01-14 22:01:00 UTC).
\<close>

definition midnightMessage :: Message where
  "midnightMessage =
     \<lparr>Id = 201, Date = 1705269660, ForwardInfo = None,
      Content = MessageText
        [CHR 0xF0, CHR 0x9F, CHR 0x94, CHR 0xB4, CHR '' '', CHR ''2'', CHR ''3'', CHR '':'',
         CHR ''5'', CHR ''9'', CHR '' '', CHR 0xD0, CHR 0x9F, CHR 0xD0, CHR 0xBE, CHR 0xD0,
         CHR 0xB2, CHR 0xD1, CHR 0x96, CHR 0xD1, CHR 0x82, CHR 0xD1, CHR 0x80, CHR 0xD1,
         CHR 0x8F, CHR 0xD0, CHR 0xBD, CHR 0xD0, CHR 0xB0, CHR '' '', CHR 0xD1, CHR 0x82,
         CHR 0xD1, CHR 0x80, CHR 0xD0, CHR 0xB8, CHR 0xD0, CHR 0xB2, CHR 0xD0, CHR 0xBE,
         CHR 0xD0, CHR 0xB3, CHR 0xD0, CHR 0xB0, CHR '' '', CHR 0xD0, CHR 0xB2, CHR '' '',
         CHR 0xD0, CHR 0x9E, CHR 0xD0, CHR 0xB4, CHR 0xD0, CHR 0xB5, CHR 0xD1, CHR 0x81,
         CHR 0xD1, CHR 0x8C, CHR 0xD0, CHR 0xBA, CHR 0xD0, CHR 0xB0, CHR '' '', CHR 0xD0,
         CHR 0xBE, CHR 0xD0, CHR 0xB1, CHR 0xD0, CHR 0xBB, CHR 0xD0, CHR 0xB0, CHR 0xD1,
         CHR 0x81, CHR 0xD1, CHR 0x82, CHR 0xD1, CHR 0x8C]\<rparr>"

text \<open>
  The line \<open>(red circle) 99:99 Povitriana tryvoha v Odeska oblast\<close>, and a message with that
  text, delivered 2024-08-21 09:00:00 in Kyiv (06:00:00 UTC).
\<close>

definition badTimeText :: string where
  "badTimeText =
     [CHR 0xF0, CHR 0x9F, CHR 0x94, CHR 0xB4, CHR '' '', CHR ''9'', CHR ''9'', CHR '':'',
      CHR ''9'', CHR ''9'', CHR '' '', CHR 0xD0, CHR 0x9F, CHR 0xD0, CHR 0xBE, CHR 0xD0,
      CHR 0xB2, CHR 0xD1, CHR 0x96, CHR 0xD1, CHR 0x82, CHR 0xD1, CHR 0x80, CHR 0xD1,
      CHR 0x8F, CHR 0xD0, CHR 0xBD, CHR 0xD0, CHR 0xB0, CHR '' '', CHR 0xD1, CHR 0x82,
      CHR 0xD1, CHR 0x80, CHR 0xD0, CHR 0xB8, CHR 0xD0, CHR 0xB2, CHR 0xD0, CHR 0xBE,
      CHR 0xD0, CHR 0xB3, CHR 0xD0, CHR 0xB0, CHR '' '', CHR 0xD0, CHR 0xB2, CHR '' '',
      CHR 0xD0, CHR 0x9E, CHR 0xD0, CHR 0xB4, CHR 0xD0, CHR 0xB5, CHR 0xD1, CHR 0x81,
      CHR 0xD1, CHR 0x8C, CHR 0xD0, CHR 0xBA, CHR 0xD0, CHR 0xB0, CHR '' '', CHR 0xD0,
      CHR 0xBE, CHR 0xD0, CHR 0xB1, CHR 0xD0, CHR 0xBB, CHR 0xD0, CHR 0xB0, CHR 0xD1,
      CHR 0x81, CHR 0xD1, CHR 0x82, CHR 0xD1, CHR 0x8C]"

definition badTimeMessage :: Message where
  "badTimeMessage =
     \<lparr>Id = 105, Date = 1724220000, ForwardInfo = None, Content = MessageText badTimeText\<rparr>"

text \<open>
  The engine of the repository's test: the history starts at 2024-08-20 00:00:00 in Kyiv
  (2024-08-19 21:00:00 UTC); the clock reads 2024-08-22 00:00:00 UTC.
\<close>

definition exampleScraper :: TgScraper where
  "exampleScraper =
     NewTgScraper (time_Unix 1724284800) (Some TgClient)
       [WithHistoryFromDate (time_Unix 1724101200), WithUpdateDiscardTimeout 0]"

text \<open>The status that \<^verbatim>\<open>parseMessage\<close> reads from \<open>exampleAlert\<close>, marked as history.\<close>

definition exampleAlertStatus :: Status where
  "exampleAlertStatus =
     \<lparr>Region = Odesa, Enabled = True, UpdatedAt = time_Unix 1724195700, IsHistory = True\<rparr>"

section \<open>The state store\<close>

lemma setAll_Nil: "setAll r [] = r"
  by (simp add: setAll_def)

lemma setAll_Cons: "setAll r (st # sts) = setAll (AlertData_set r (Some st)) sts"
  by (simp add: setAll_def)

lemma set_other: "Region st \<noteq> rid \<Longrightarrow> data (AlertData_set r (Some st)) rid = data r rid"
  by (simp add: AlertData_set_def split: option.splits)

lemma set_fresh:
  "data r (Region st) = None \<Longrightarrow> data (AlertData_set r (Some st)) (Region st) = Some st"
  by (simp add: AlertData_set_def)

lemma set_present:
  "data r (Region st) = Some cur \<Longrightarrow>
   data (AlertData_set r (Some st)) (Region st) =
     Some (if Before (UpdatedAt st) (UpdatedAt cur) then cur else st)"
  by (simp add: AlertData_set_def)

text \<open>
  Once a region has an entry, its timestamp after a sequence of calls is the greatest of the
  entry's and the calls' timestamps.
\<close>

lemma setAll_present:
  "data r rid = Some cur \<Longrightarrow>
   map_option UpdatedAt (data (setAll r sts) rid) =
     Some (fold max (stamps rid sts) (UpdatedAt cur))"
proof (induction sts arbitrary: r cur)
  case Nil
  then show ?case by (simp add: stamps_def setAll_Nil)
next
  case (Cons st sts)
  show ?case
  proof (cases "Region st = rid")
    case False
    then have "data (AlertData_set r (Some st)) rid = Some cur"
      using Cons.prems by (simp add: set_other)
    from Cons.IH [OF this] False show ?thesis by (simp add: stamps_def setAll_Cons)
  next
    case True
    let ?new = "if Before (UpdatedAt st) (UpdatedAt cur) then cur else st"
    have "data (AlertData_set r (Some st)) rid = Some ?new"
      using set_present [of r st cur] Cons.prems True by simp
    moreover have "UpdatedAt ?new = max (UpdatedAt st) (UpdatedAt cur)"
      by (simp add: Before_def max_def)
    ultimately show ?thesis
      using Cons.IH [of "AlertData_set r (Some st)" ?new] True
      by (simp add: stamps_def setAll_Cons del: map_option_eq_Some)
  qed
qed

lemma setAll_fresh:
  "data r rid = None \<Longrightarrow>
   map_option UpdatedAt (data (setAll r sts) rid) =
     (case stamps rid sts of [] \<Rightarrow> None | t # ts \<Rightarrow> Some (fold max ts t))"
proof (induction sts arbitrary: r)
  case Nil
  then show ?case by (simp add: stamps_def setAll_Nil)
next
  case (Cons st sts)
  show ?case
  proof (cases "Region st = rid")
    case False
    then have "data (AlertData_set r (Some st)) rid = None"
      using Cons.prems by (simp add: set_other)
    from Cons.IH [OF this] False show ?thesis by (simp add: stamps_def setAll_Cons)
  next
    case True
    have "data (AlertData_set r (Some st)) rid = Some st"
      using set_fresh [of r st] Cons.prems True by simp
    from setAll_present [OF this, of sts] True show ?thesis
      by (simp add: stamps_def setAll_Cons)
  qed
qed

lemma fold_max_Max: "fold max ts (t::int) = Max (set (t # ts))"
  by (simp only: Max.set_eq_fold)

lemma stamps_perm: "mset sts' = mset sts \<Longrightarrow> set (stamps rid sts') = set (stamps rid sts)"
  unfolding stamps_def by (metis mset_filter mset_map set_mset_mset)

text \<open>
  Claim C1. Take a store in which a region has no entry yet, as in the map that the
  constructor makes, and any sequence of \<^verbatim>\<open>set\<close> calls of which at least one is for that
  region. Afterwards the region's \<^verbatim>\<open>UpdatedAt\<close> is the greatest \<^verbatim>\<open>UpdatedAt\<close> among the
  calls for that region; it is the same for every reordering of the calls; and in any
  store a call whose \<^verbatim>\<open>UpdatedAt\<close> equals that of the entry on file replaces the entry.
  When the calls are counted from a store that already holds an entry for the region, that
  entry counts as one more call: the result is the greatest of its \<^verbatim>\<open>UpdatedAt\<close> and those
  of the calls.
\<close>

theorem set_last_writer_by_timestamp:
  assumes fresh: "data r rid = None"
      and calls: "stamps rid sts \<noteq> []"
  shows "map_option UpdatedAt (data (setAll r sts) rid) = Some (Max (set (stamps rid sts)))
       \<and> (\<forall>sts'. mset sts' = mset sts \<longrightarrow>
             map_option UpdatedAt (data (setAll r sts') rid) =
             map_option UpdatedAt (data (setAll r sts) rid))
       \<and> (\<forall>r0 cur st. data r0 (Region st) = Some cur \<and> UpdatedAt st = UpdatedAt cur \<longrightarrow>
             data (AlertData_set r0 (Some st)) (Region st) = Some st)
       \<and> (\<forall>r0 cur. data r0 rid = Some cur \<longrightarrow>
             map_option UpdatedAt (data (setAll r0 sts) rid) =
             Some (Max (set (UpdatedAt cur # stamps rid sts))))"
proof -
  have m: "map_option UpdatedAt (data (setAll r xs) rid) = Some (Max (set (stamps rid xs)))"
    if "stamps rid xs \<noteq> []" for xs
  proof -
    from that obtain t ts where ts: "stamps rid xs = t # ts"
      by (cases "stamps rid xs") auto
    with setAll_fresh [OF fresh, of xs] show ?thesis
      by (simp only: fold_max_Max list.case)
  qed
  have p: "map_option UpdatedAt (data (setAll r sts') rid) =
           map_option UpdatedAt (data (setAll r sts) rid)"
    if eq: "mset sts' = mset sts" for sts'
  proof -
    have s: "set (stamps rid sts') = set (stamps rid sts)"
      by (rule stamps_perm [OF eq])
    with calls have "stamps rid sts' \<noteq> []" by auto
    from m [OF this] m [OF calls] s show ?thesis by (simp only:)
  qed
  have t: "data (AlertData_set r0 (Some st)) (Region st) = Some st"
    if "data r0 (Region st) = Some cur" "UpdatedAt st = UpdatedAt cur" for r0 cur st
    using set_present [OF that(1)] that(2) by (simp add: Before_def)
  have e: "map_option UpdatedAt (data (setAll r0 sts) rid) =
           Some (Max (set (UpdatedAt cur # stamps rid sts)))"
    if "data r0 rid = Some cur" for r0 cur
    using setAll_present [OF that, of sts] by (simp only: fold_max_Max)
  from m [OF calls] p t e show ?thesis by blast
qed

text \<open>
  The theorem at an empty store and three calls, two for Odesa (timestamps 7 and 3) and one
  for the city of Kyiv: Odesa ends with 7 in both orders of its two calls, and a further
  call with timestamp 7 replaces the entry. From a store that holds Odesa at timestamp 8 the
  same calls leave 8.
\<close>

theorem set_last_writer_by_timestamp_witness:
  "data \<lparr>data = Map.empty\<rparr> Odesa = None
   \<and> stamps Odesa
        [\<lparr>Region = Odesa, Enabled = True, UpdatedAt = 7, IsHistory = False\<rparr>,
         \<lparr>Region = Odesa, Enabled = False, UpdatedAt = 3, IsHistory = False\<rparr>,
         \<lparr>Region = KyivCity, Enabled = True, UpdatedAt = 9, IsHistory = False\<rparr>] \<noteq> []
   \<and> map_option UpdatedAt (data (setAll \<lparr>data = Map.empty\<rparr>
        [\<lparr>Region = Odesa, Enabled = True, UpdatedAt = 7, IsHistory = False\<rparr>,
         \<lparr>Region = Odesa, Enabled = False, UpdatedAt = 3, IsHistory = False\<rparr>,
         \<lparr>Region = KyivCity, Enabled = True, UpdatedAt = 9, IsHistory = False\<rparr>]) Odesa) = Some 7
   \<and> map_option UpdatedAt (data (setAll \<lparr>data = Map.empty\<rparr>
        [\<lparr>Region = Odesa, Enabled = False, UpdatedAt = 3, IsHistory = False\<rparr>,
         \<lparr>Region = KyivCity, Enabled = True, UpdatedAt = 9, IsHistory = False\<rparr>,
         \<lparr>Region = Odesa, Enabled = True, UpdatedAt = 7, IsHistory = False\<rparr>]) Odesa) = Some 7
   \<and> data (AlertData_set
        \<lparr>data = [Odesa \<mapsto> \<lparr>Region = Odesa, Enabled = True, UpdatedAt = 7, IsHistory = False\<rparr>]\<rparr>
        (Some \<lparr>Region = Odesa, Enabled = False, UpdatedAt = 7, IsHistory = True\<rparr>)) Odesa
       = Some \<lparr>Region = Odesa, Enabled = False, UpdatedAt = 7, IsHistory = True\<rparr>
   \<and> map_option UpdatedAt (data (setAll
        \<lparr>data = [Odesa \<mapsto> \<lparr>Region = Odesa, Enabled = True, UpdatedAt = 8, IsHistory = True\<rparr>]\<rparr>
        [\<lparr>Region = Odesa, Enabled = True, UpdatedAt = 7, IsHistory = False\<rparr>,
         \<lparr>Region = Odesa, Enabled = False, UpdatedAt = 3, IsHistory = False\<rparr>,
         \<lparr>Region = KyivCity, Enabled = True, UpdatedAt = 9, IsHistory = False\<rparr>]) Odesa) = Some 8"
proof -
  let ?a = "\<lparr>Region = Odesa, Enabled = True, UpdatedAt = 7, IsHistory = False\<rparr>"
  let ?b = "\<lparr>Region = Odesa, Enabled = False, UpdatedAt = 3, IsHistory = False\<rparr>"
  let ?c = "\<lparr>Region = KyivCity, Enabled = True, UpdatedAt = 9, IsHistory = False\<rparr>"
  let ?d = "\<lparr>Region = Odesa, Enabled = False, UpdatedAt = 7, IsHistory = True\<rparr>"
  let ?e = "\<lparr>data = Map.empty\<rparr> :: AlertData"
  have fresh: "data ?e Odesa = None" by simp
  have st: "stamps Odesa [?a, ?b, ?c] = [7, 3]"
    by (simp add: stamps_def Odesa_def KyivCity_def)
  then have calls: "stamps Odesa [?a, ?b, ?c] \<noteq> []" by simp
  note main = set_last_writer_by_timestamp [OF fresh calls]
  have 1: "map_option UpdatedAt (data (setAll ?e [?a, ?b, ?c]) Odesa) = Some 7"
    using main st by (simp del: map_option_eq_Some)
  have "mset [?b, ?c, ?a] = mset [?a, ?b, ?c]" by simp
  with main have "map_option UpdatedAt (data (setAll ?e [?b, ?c, ?a]) Odesa) =
                 map_option UpdatedAt (data (setAll ?e [?a, ?b, ?c]) Odesa)"
    by blast
  with 1 have 2: "map_option UpdatedAt (data (setAll ?e [?b, ?c, ?a]) Odesa) = Some 7"
    by (simp only:)
  have "data \<lparr>data = [Odesa \<mapsto> ?a]\<rparr> (Region ?d) = Some ?a \<and> UpdatedAt ?d = UpdatedAt ?a"
    by simp
  with main have "data (AlertData_set \<lparr>data = [Odesa \<mapsto> ?a]\<rparr> (Some ?d)) (Region ?d) = Some ?d"
    by blast
  then have 3: "data (AlertData_set \<lparr>data = [Odesa \<mapsto> ?a]\<rparr> (Some ?d)) Odesa = Some ?d"
    by simp
  let ?o = "\<lparr>Region = Odesa, Enabled = True, UpdatedAt = 8, IsHistory = True\<rparr>"
  have "data \<lparr>data = [Odesa \<mapsto> ?o]\<rparr> Odesa = Some ?o" by simp
  with main have "map_option UpdatedAt (data (setAll \<lparr>data = [Odesa \<mapsto> ?o]\<rparr> [?a, ?b, ?c]) Odesa) =
      Some (Max (set (UpdatedAt ?o # stamps Odesa [?a, ?b, ?c])))"
    by blast
  then have 4: "map_option UpdatedAt (data (setAll \<lparr>data = [Odesa \<mapsto> ?o]\<rparr> [?a, ?b, ?c]) Odesa) =
      Some 8"
    by (simp add: st del: map_option_eq_Some)
  from fresh calls 1 2 3 4 show ?thesis by (simp only: simp_thms)
qed

text \<open>
  Claim C7. A \<^verbatim>\<open>set\<close> call whose status is strictly older than the entry on file for its
  region leaves the whole store as it was, and so the entry's \<^verbatim>\<open>Enabled\<close>, \<^verbatim>\<open>UpdatedAt\<close>
  and \<^verbatim>\<open>IsHistory\<close>; the call has no result that could report an error.
\<close>

theorem set_stale_noop:
  "data r (Region st) = Some cur \<Longrightarrow> Before (UpdatedAt st) (UpdatedAt cur) \<Longrightarrow>
   AlertData_set r (Some st) = r"
  by (simp add: AlertData_set_def)

text \<open>The theorem at a store that holds Odesa at timestamp 7 and a call with timestamp 3.\<close>

theorem set_stale_noop_witness:
  "data \<lparr>data = [Odesa \<mapsto> \<lparr>Region = Odesa, Enabled = True, UpdatedAt = 7, IsHistory = False\<rparr>]\<rparr>
        (Region \<lparr>Region = Odesa, Enabled = False, UpdatedAt = 3, IsHistory = True\<rparr>)
     = Some \<lparr>Region = Odesa, Enabled = True, UpdatedAt = 7, IsHistory = False\<rparr>
   \<and> Before (UpdatedAt \<lparr>Region = Odesa, Enabled = False, UpdatedAt = 3, IsHistory = True\<rparr>)
             (UpdatedAt \<lparr>Region = Odesa, Enabled = True, UpdatedAt = 7, IsHistory = False\<rparr>)
   \<and> AlertData_set
        \<lparr>data = [Odesa \<mapsto> \<lparr>Region = Odesa, Enabled = True, UpdatedAt = 7, IsHistory = False\<rparr>]\<rparr>
        (Some \<lparr>Region = Odesa, Enabled = False, UpdatedAt = 3, IsHistory = True\<rparr>)
     = \<lparr>data = [Odesa \<mapsto> \<lparr>Region = Odesa, Enabled = True, UpdatedAt = 7, IsHistory = False\<rparr>]\<rparr>"
proof -
  let ?cur = "\<lparr>Region = Odesa, Enabled = True, UpdatedAt = 7, IsHistory = False\<rparr>"
  let ?st = "\<lparr>Region = Odesa, Enabled = False, UpdatedAt = 3, IsHistory = True\<rparr>"
  let ?r = "\<lparr>data = [Odesa \<mapsto> ?cur]\<rparr>"
  have h1: "data ?r (Region ?st) = Some ?cur" by simp
  have h2: "Before (UpdatedAt ?st) (UpdatedAt ?cur)" by (simp add: Before_def)
  from h1 h2 set_stale_noop [OF h1 h2] show ?thesis by (simp only: simp_thms)
qed

text \<open>
  The first loop of \<^verbatim>\<open>newAlertData\<close>, over any list of pairs: the result depends on the set
  of the identifiers only, not on their order.
\<close>

lemma init_loop:
  "data (foldl (\<lambda>ad (rid, _). AlertData_set ad (Some (zeroStatus rid)))
           \<lparr>data = Map.empty\<rparr> xs) k =
     (if k \<in> fst ` set xs then Some (zeroStatus k) else None)"
proof (induction xs rule: rev_induct)
  case Nil
  show ?case by simp
next
  case (snoc x xs)
  obtain rid name where x: "x = (rid, name)" by (cases x)
  show ?case using snoc
    by (auto simp: x AlertData_set_def zeroStatus_def Before_def split: option.splits if_splits)
qed

lemma seed_Crimea: "time_Date 2022 12 11 0 22 0 0 kyivLocation = time_Unix 1670710920"
  by (simp add: time_Date_def daysFromCivil_def lookup_def kyivLocation_def time_Unix_def
        alpha_def omega_def)

lemma seed_Luhansk: "time_Date 2022 4 4 19 45 0 0 kyivLocation = time_Unix 1649090700"
  by (simp add: time_Date_def daysFromCivil_def lookup_def kyivLocation_def time_Unix_def
        alpha_def omega_def)

lemma Crimea_registered: "Crimea \<in> fst ` set namesById"
  by (simp add: namesById_def Crimea_def)

lemma Luhansk_registered: "Luhansk \<in> fst ` set namesById"
  by (simp add: namesById_def Luhansk_def)

lemma registry_ids: "fst ` set namesById = {1..27}"
proof -
  have "fst ` set namesById = {1, 2, 3, 4, 5, 6, 7, 8, 9, 10, 11, 12, 13, 14, 15, 16, 17, 18,
          19, 20, 21, 22, 23, 24, 25, 26, 27}"
    by (simp add: namesById_def)
  also have "\<dots> = {1..27}"
  proof (rule set_eqI)
    fix x :: int
    show "x \<in> {1, 2, 3, 4, 5, 6, 7, 8, 9, 10, 11, 12, 13, 14, 15, 16, 17, 18,
          19, 20, 21, 22, 23, 24, 25, 26, 27} \<longleftrightarrow> x \<in> {1..27}"
      unfolding atLeastAtMost_iff insert_iff empty_iff by presburger
  qed
  finally show ?thesis .
qed

lemma newAlertData_data:
  "data newAlertData rid =
     (if rid = Crimea then
        Some \<lparr>Region = Crimea, Enabled = True,
              UpdatedAt = time_Date 2022 12 11 0 22 0 0 kyivLocation, IsHistory = True\<rparr>
      else if rid = Luhansk then
        Some \<lparr>Region = Luhansk, Enabled = True,
              UpdatedAt = time_Date 2022 4 4 19 45 0 0 kyivLocation, IsHistory = True\<rparr>
      else if rid \<in> fst ` set namesById then
        Some \<lparr>Region = rid, Enabled = False, UpdatedAt = zeroTime, IsHistory = True\<rparr>
      else None)"
proof -
  let ?init = "foldl (\<lambda>ad (rid, _). AlertData_set ad (Some (zeroStatus rid)))
                 \<lparr>data = Map.empty\<rparr> namesById"
  have i: "data ?init k = (if k \<in> fst ` set namesById then Some (zeroStatus k) else None)" for k
    by (rule init_loop)
  show ?thesis
    unfolding newAlertData_def Let_def Iterator_def zeroStatus_def [symmetric]
    using i [of Crimea] i [of Luhansk] i [of rid] Crimea_registered Luhansk_registered
    by (simp add: AlertData_set_def seed_Crimea seed_Luhansk zeroStatus_def Before_def
          zeroTime_def time_Unix_def Crimea_def Luhansk_def)
qed

text \<open>
  Claim C5. The store that \<^verbatim>\<open>newAlertData\<close> returns holds, for Crimea and for Luhansk, an
  enabled history status with the seed timestamp (2022-12-11 00:22 and 2022-04-04 19:45 in
  Kyiv, which are 2022-12-10 22:22:00 UTC and 2022-04-04 16:45:00 UTC); for every other
  region of the registry (the identifiers 1 to 27) a disabled history status with the zero
  timestamp; and nothing else.
\<close>

theorem newAlertData_initial:
  "data newAlertData =
     (\<lambda>rid. if rid = Crimea then
               Some \<lparr>Region = Crimea, Enabled = True,
                     UpdatedAt = time_Date 2022 12 11 0 22 0 0 kyivLocation, IsHistory = True\<rparr>
            else if rid = Luhansk then
               Some \<lparr>Region = Luhansk, Enabled = True,
                     UpdatedAt = time_Date 2022 4 4 19 45 0 0 kyivLocation, IsHistory = True\<rparr>
            else if rid \<in> fst ` set namesById then
               Some \<lparr>Region = rid, Enabled = False, UpdatedAt = zeroTime, IsHistory = True\<rparr>
            else None)
   \<and> time_Date 2022 12 11 0 22 0 0 kyivLocation = time_Unix 1670710920
   \<and> time_Date 2022 4 4 19 45 0 0 kyivLocation = time_Unix 1649090700
   \<and> fst ` set namesById = {1..27}"
proof -
  have "data newAlertData = (\<lambda>rid. if rid = Crimea then
               Some \<lparr>Region = Crimea, Enabled = True,
                     UpdatedAt = time_Date 2022 12 11 0 22 0 0 kyivLocation, IsHistory = True\<rparr>
            else if rid = Luhansk then
               Some \<lparr>Region = Luhansk, Enabled = True,
                     UpdatedAt = time_Date 2022 4 4 19 45 0 0 kyivLocation, IsHistory = True\<rparr>
            else if rid \<in> fst ` set namesById then
               Some \<lparr>Region = rid, Enabled = False, UpdatedAt = zeroTime, IsHistory = True\<rparr>
            else None)"
    by (rule ext) (rule newAlertData_data)
  with seed_Crimea seed_Luhansk registry_ids show ?thesis by (simp only: simp_thms)
qed

section \<open>The parser on the example messages\<close>

lemma parse_exampleAlert:
  "parseMessage kyivLocation exampleAlert =
     (Some \<lparr>Region = Odesa, Enabled = True, UpdatedAt = time_Unix 1724195700,
            IsHistory = False\<rparr>, None)"
  by code_simp

lemma parse_exampleClear:
  "parseMessage kyivLocation exampleClear =
     (Some \<lparr>Region = Odesa, Enabled = False, UpdatedAt = time_Unix 1724085960,
            IsHistory = False\<rparr>, None)"
  by code_simp

lemma find_badTime:
  "FindStringSubmatch badTimeText = [badTimeText, ''99:99'', phraseAlert, ID_String Odesa]"
  by code_simp

lemma parse_time_9999:
  "time_Parse_TimeOnly ''99:99:00'' =
     (zeroTime, Some (ParseError ''99:99:00'' '': hour out of range''))"
  by code_simp

text \<open>The time of day is read before the location is used, so the error is the same everywhere.\<close>

lemma parse_badTime:
  "parseMessage Local badTimeMessage =
     (None, Some (Wrap ''failed to parse time: 99:99:00: ''
                    (ParseError ''99:99:00'' '': hour out of range'')))"
  unfolding parseMessage_def
  by (simp add: badTimeMessage_def find_badTime Let_def parse_time_9999)

lemma parse_midnight:
  "parseMessage kyivLocation midnightMessage =
     (Some \<lparr>Region = Odesa, Enabled = True, UpdatedAt = time_Unix 1705355940,
            IsHistory = False\<rparr>, None)"
  by code_simp

section \<open>Queries\<close>

lemma idsByName_fold:
  "foldl (\<lambda>m (rid, name). m(name \<mapsto> rid)) m0 xs name = Some rid \<Longrightarrow>
   (rid, name) \<in> set xs \<or> m0 name = Some rid"
proof (induction xs rule: rev_induct)
  case Nil
  then show ?case by simp
next
  case (snoc x xs)
  obtain rid' name' where x: "x = (rid', name')" by (cases x)
  from snoc show ?case by (auto simp: x split: if_splits)
qed

lemma region_Parse_registered:
  assumes "region_Parse name = (rid, None)"
  shows "rid \<in> fst ` set namesById"
proof -
  from assms have "idsByName name = Some rid"
    by (auto simp: region_Parse_def split: option.splits)
  then have "(rid, name) \<in> set namesById"
    unfolding idsByName_def by (auto dest: idsByName_fold)
  then show ?thesis by force
qed

lemma parseMessage_region:
  "parseMessage Local m = (Some st, None) \<Longrightarrow> \<exists>name. region_Parse name = (Region st, None)"
  unfolding parseMessage_def Let_def
  by (auto split: MessageContent.splits if_splits prod.splits option.splits)

text \<open>A status that \<^verbatim>\<open>parseMessage\<close> returns is for a region of the registry.\<close>

lemma parseMessage_registered:
  "parseMessage Local m = (Some st, None) \<Longrightarrow> Region st \<in> fst ` set namesById"
  using parseMessage_region region_Parse_registered by blast

lemma dom_set:
  "dom (data (AlertData_set ad (Some st))) = insert (Region st) (dom (data ad))"
  by (auto simp: AlertData_set_def split: option.splits if_splits)

lemma dom_newAlertData: "dom (data newAlertData) = fst ` set namesById"
  using Crimea_registered Luhansk_registered
  by (auto simp: newAlertData_data dom_def split: if_splits)

text \<open>The regions with an entry are, at all times, the regions of the registry.\<close>

lemma reachable_dom: "reachable Local ad \<Longrightarrow> dom (data ad) = fst ` set namesById"
proof (induction rule: reachable.induct)
  case created
  show ?case by (rule dom_newAlertData)
next
  case (backfilled ad message status)
  from parseMessage_registered [OF backfilled.hyps(2)] backfilled.IH
  show ?case by (auto simp: dom_set)
next
  case (updated ad message status)
  from parseMessage_registered [OF updated.hyps(2)] updated.IH
  show ?case by (auto simp: dom_set)
qed

text \<open>Both writers keep the store among the reachable stores.\<close>

lemma reachable_historyLoop:
  "reachable Local ad \<Longrightarrow> reachable Local (snd (historyLoop Local ad ms))"
proof (induction ms arbitrary: ad)
  case Nil
  then show ?case by simp
next
  case (Cons m ms)
  obtain st err where p: "parseMessage Local m = (st, err)"
    by (cases "parseMessage Local m")
  show ?case
  proof (cases err)
    case (Some e)
    with p Cons.prems show ?thesis by (simp split: option.splits)
  next
    case None
    show ?thesis
    proof (cases st)
      case None
      with p \<open>err = None\<close> Cons show ?thesis by simp
    next
      case (Some status)
      with p \<open>err = None\<close> have q: "parseMessage Local m = (Some status, None)" by simp
      from Cons.IH [OF backfilled [OF Cons.prems q]] q show ?thesis by simp
    qed
  qed
qed

lemma sendUpdate_alertData: "alertData (sendUpdate r dlv status) = alertData r"
  by (simp add: sendUpdate_def split: option.splits)

lemma reachable_listenLoop:
  "listenLoop Local r evs = Some (e, r', rest) \<Longrightarrow> reachable Local (alertData r) \<Longrightarrow>
   reachable Local (alertData r')"
proof (induction Local r evs rule: listenLoop.induct)
  case (5 Local r message dlv es)
  obtain st err where p: "parseMessage Local message = (st, err)"
    by (cases "parseMessage Local message")
  show ?case
  proof (cases err)
    case (Some e')
    with p "5.prems" show ?thesis by (simp split: option.splits)
  next
    case None
    show ?thesis
    proof (cases st)
      case None
      with p \<open>err = None\<close> "5.IH" "5.prems" show ?thesis by simp
    next
      case (Some status)
      with p \<open>err = None\<close> have q: "parseMessage Local message = (Some status, None)"
        by simp
      have "reachable Local (AlertData_set (alertData r) (Some status))"
        by (rule updated [OF "5.prems"(2) q])
      with "5.IH" q "5.prems"(1)
      show ?thesis by (simp add: sendUpdate_alertData)
    qed
  qed
qed simp_all

text \<open>
  Claim C4. In every store that an engine can hold, \<^verbatim>\<open>GetByRegion\<close> on an identifier of
  the registry returns the status on file for it and no error; on any other identifier it
  returns the zero status and the invalid-region error. In both cases the store is as before.
\<close>

theorem GetByRegion_registry:
  assumes "reachable Local ad"
  shows "(rid \<in> fst ` set namesById \<longrightarrow>
            (\<exists>st. data ad rid = Some st \<and> GetByRegion ad rid = ((st, None), ad)))
       \<and> (rid \<notin> fst ` set namesById \<longrightarrow>
            GetByRegion ad rid =
              ((Status_zero,
                Some (Err (''scraper: invalid region '' @ [CHR 0x27] @ ID_String rid @ [CHR 0x27]))),
               ad))"
proof -
  have d: "dom (data ad) = fst ` set namesById" by (rule reachable_dom [OF assms])
  show ?thesis
  proof (intro conjI impI)
    assume "rid \<in> fst ` set namesById"
    with d obtain st where "data ad rid = Some st" by blast
    then show "\<exists>st. data ad rid = Some st \<and> GetByRegion ad rid = ((st, None), ad)"
      by (simp add: GetByRegion_def)
  next
    assume "rid \<notin> fst ` set namesById"
    with d have "data ad rid = None" by blast
    then show "GetByRegion ad rid =
              ((Status_zero,
                Some (Err (''scraper: invalid region '' @ [CHR 0x27] @ ID_String rid @ [CHR 0x27]))),
               ad)"
      by (simp add: GetByRegion_def)
  qed
qed

lemma Odesa_registered: "Odesa \<in> fst ` set namesById"
  by (simp add: registry_ids Odesa_def)

lemma Invalid_unregistered: "Invalid \<notin> fst ` set namesById"
  by (simp add: registry_ids Invalid_def)

lemma ID_String_Invalid: "ID_String Invalid = []"
  by (simp add: ID_String_def Invalid_def namesById_def)

text \<open>
  The theorem at the store after the backfill of \<open>exampleAlert\<close>, for Odesa, which is in the
  registry, and for the identifier \<^verbatim>\<open>Invalid\<close>, which is not.
\<close>

theorem GetByRegion_registry_witness:
  "reachable kyivLocation (AlertData_set newAlertData (Some exampleAlertStatus))
   \<and> Odesa \<in> fst ` set namesById
   \<and> data (AlertData_set newAlertData (Some exampleAlertStatus)) Odesa = Some exampleAlertStatus
   \<and> GetByRegion (AlertData_set newAlertData (Some exampleAlertStatus)) Odesa =
       ((exampleAlertStatus, None), AlertData_set newAlertData (Some exampleAlertStatus))
   \<and> Invalid \<notin> fst ` set namesById
   \<and> GetByRegion (AlertData_set newAlertData (Some exampleAlertStatus)) Invalid =
       ((Status_zero, Some (Err (''scraper: invalid region '' @ [CHR 0x27, CHR 0x27]))),
        AlertData_set newAlertData (Some exampleAlertStatus))"
proof -
  let ?ad = "AlertData_set newAlertData (Some exampleAlertStatus)"
  have st: "exampleAlertStatus =
      \<lparr>Region = Odesa, Enabled = True, UpdatedAt = time_Unix 1724195700, IsHistory = False\<rparr>\<lparr>IsHistory := True\<rparr>"
    by (simp add: exampleAlertStatus_def)
  have r: "reachable kyivLocation ?ad"
    unfolding st by (rule backfilled [OF created parse_exampleAlert])
  have d: "data ?ad Odesa = Some exampleAlertStatus"
    by (simp add: AlertData_set_def newAlertData_data exampleAlertStatus_def Odesa_def Crimea_def
          Luhansk_def registry_ids Before_def zeroTime_def time_Unix_def)
  from GetByRegion_registry [OF r, of Odesa] Odesa_registered d
  have g: "GetByRegion ?ad Odesa = ((exampleAlertStatus, None), ?ad)" by auto
  from GetByRegion_registry [OF r, of Invalid] Invalid_unregistered
  have i: "GetByRegion ?ad Invalid =
       ((Status_zero, Some (Err (''scraper: invalid region '' @ [CHR 0x27, CHR 0x27]))), ?ad)"
    by (simp add: ID_String_Invalid)
  from r Odesa_registered d g Invalid_unregistered i show ?thesis by (simp only: simp_thms)
qed

section \<open>Backfill\<close>

lemma cursorAfter_Cons: "cursorAfter c (m # ms) = cursorAfter (Id m) ms"
  by (simp add: cursorAfter_def)

text \<open>
  While the client delivers messages that are not older than the start of the period, the
  walk goes on, keeping those that are neither forwarded nor other than text.
\<close>

lemma walk_delivered:
  "delivers pre c ms \<Longrightarrow> \<forall>m\<in>set ms. \<not> Before (time_Unix (Date m)) h \<Longrightarrow>
   getMessagesLoop h (pre @ tail) c acc =
     getMessagesLoop h tail (cursorAfter c ms) (acc @ filter kept ms)"
proof (induction pre c ms arbitrary: acc rule: delivers.induct)
  case (1 cursor)
  show ?case by (simp add: cursorAfter_def)
next
  case (2 s ss cursor m ms)
  from "2.prems"(1) obtain more where
    s: "ctxErr s = None" "answer s (historyRequest cursor) = Inr (m # more)"
    and d: "delivers ss (Id m) ms"
    by (auto split: sum.splits list.splits)
  from "2.prems"(2) have recent: "\<not> Before (time_Unix (Date m)) h"
    and rest: "\<forall>m\<in>set ms. \<not> Before (time_Unix (Date m)) h" by simp_all
  note ih = "2.IH" [OF d rest]
  show ?case
    using s recent ih [of acc] ih [of "acc @ [m]"]
    by (simp add: historyRequest_def kept_def cursorAfter_Cons)
qed simp_all

lemma walk_ends:
  "ends s c h \<Longrightarrow> getMessagesLoop h (s # rest) c acc = Some ((acc, None), rest)"
  by (auto simp: ends_def historyRequest_def split: sum.splits list.splits)

lemma walk_running:
  "delivers pre c ms \<Longrightarrow> \<forall>m\<in>set ms. \<not> Before (time_Unix (Date m)) h \<Longrightarrow>
   getMessagesLoop h pre c acc = None"
  using walk_delivered [of pre c ms h "[]" acc] by simp

lemma sorted_rev_filter:
  assumes "sorted (rev (map Date ms))"
  shows "sorted (map Date (rev (filter kept ms)))"
proof -
  from assms have "sorted (map Date (rev ms))" by (simp add: rev_map)
  then have "sorted (map Date (filter kept (rev ms)))" by (rule sorted_filter)
  then show ?thesis by (simp add: rev_filter)
qed

text \<open>
  When no message of a batch fails to parse, the loop of \<^verbatim>\<open>history\<close> merges the parsed
  statuses one after the other, in the order of the batch.
\<close>

lemma historyLoop_merge:
  "\<forall>m\<in>set ms. snd (parseMessage Local m) = None \<Longrightarrow>
   historyLoop Local ad ms = (None, foldl (mergeParsed Local) ad ms)"
proof (induction ms arbitrary: ad)
  case Nil
  show ?case by simp
next
  case (Cons m ms)
  then show ?case
    by (cases "parseMessage Local m") (auto simp: mergeParsed_def split: option.splits)
qed

text \<open>
  Claim C6. Let the client deliver, most recent first and one per page, the messages \<open>ms\<close>,
  none of them older than the start of the period, and then answer with an empty page or with
  a message older than the start of the period, the context not being done meanwhile. Then
  the walk is still going on after the pages of \<open>ms\<close>; it ends at the next answer, leaving
  the rest of the script untouched, with the messages of \<open>ms\<close> that are neither forwarded nor
  other than text, in the order of delivery; \<^verbatim>\<open>history\<close> runs its parse-and-merge loop over
  that batch reversed, which is in ascending order of delivery time, before it closes
  \<^verbatim>\<open>historyDone\<close>; and when no message of the batch fails to parse, the store is the
  old one with the parsed statuses merged one after the other in that order.
\<close>

theorem backfill_walk:
  assumes dl: "delivers pre 0 ms"
      and recent: "\<forall>m\<in>set ms. \<not> Before (time_Unix (Date m)) (historyFromDate r)"
      and stop: "ends s (cursorAfter 0 ms) (historyFromDate r)"
      and newest_first: "sorted (rev (map Date ms))"
      and op: "\<not> closed (historyDone r)"
  shows "getMessagesForPeriod (historyFromDate r) pre = None
       \<and> getMessagesForPeriod (historyFromDate r) (pre @ s # rest) =
           Some ((filter kept ms, None), rest)
       \<and> history Local r (pre @ s # rest) =
           Some (Returns (fst (historyLoop Local (alertData r) (rev (filter kept ms)))),
                 r\<lparr>alertData := snd (historyLoop Local (alertData r) (rev (filter kept ms))),
                   historyDone := (historyDone r)\<lparr>closed := True\<rparr>\<rparr>,
                 rest)
       \<and> sorted (map Date (rev (filter kept ms)))
       \<and> ((\<forall>m\<in>set (filter kept ms). snd (parseMessage Local m) = None) \<longrightarrow>
            history Local r (pre @ s # rest) =
              Some (Returns None,
                    r\<lparr>alertData := foldl (mergeParsed Local) (alertData r) (rev (filter kept ms)),
                      historyDone := (historyDone r)\<lparr>closed := True\<rparr>\<rparr>,
                    rest))"
proof -
  have 1: "getMessagesForPeriod (historyFromDate r) pre = None"
    unfolding getMessagesForPeriod_def by (rule walk_running [OF dl recent])
  have 2: "getMessagesForPeriod (historyFromDate r) (pre @ s # rest) =
           Some ((filter kept ms, None), rest)"
    unfolding getMessagesForPeriod_def
    using walk_delivered [OF dl recent, of "s # rest" "[]"]
      walk_ends [OF stop, of rest "filter kept ms"]
    by simp
  have 3: "history Local r (pre @ s # rest) =
           Some (Returns (fst (historyLoop Local (alertData r) (rev (filter kept ms)))),
                 r\<lparr>alertData := snd (historyLoop Local (alertData r) (rev (filter kept ms))),
                   historyDone := (historyDone r)\<lparr>closed := True\<rparr>\<rparr>,
                 rest)"
    using op by (simp add: history_def 2 close_chan_def split_beta Let_def)
  have 4: "history Local r (pre @ s # rest) =
              Some (Returns None,
                    r\<lparr>alertData := foldl (mergeParsed Local) (alertData r) (rev (filter kept ms)),
                      historyDone := (historyDone r)\<lparr>closed := True\<rparr>\<rparr>,
                    rest)"
    if "\<forall>m\<in>set (filter kept ms). snd (parseMessage Local m) = None"
  proof -
    from that have "\<forall>m\<in>set (rev (filter kept ms)). snd (parseMessage Local m) = None"
      by simp
    from historyLoop_merge [OF this, of "alertData r"] 3 show ?thesis
      by (simp only: fst_conv snd_conv)
  qed
  from 1 2 3 4 sorted_rev_filter [OF newest_first] show ?thesis by blast
qed

lemma exampleScraper_fields:
  "client exampleScraper = Some TgClient"
  "historyFromDate exampleScraper = time_Unix 1724101200"
  "updateDiscardTimeout exampleScraper = 0"
  "once exampleScraper = False"
  "historyDone exampleScraper = \<lparr>sent = [], closed = False\<rparr>"
  "alertData exampleScraper = newAlertData"
  "updates exampleScraper = None"
  by (simp_all add: exampleScraper_def NewTgScraper_def WithHistoryFromDate_def
        WithUpdateDiscardTimeout_def make_chan_def)

lemma example_kept:
  "filter kept [exampleAlert, exampleForwarded, examplePhoto] = [exampleAlert]"
  by (simp add: kept_def isText_def exampleAlert_def exampleForwarded_def examplePhoto_def)

lemma example_history_loop:
  "historyLoop kyivLocation newAlertData [exampleAlert] =
     (None, AlertData_set newAlertData (Some exampleAlertStatus))"
  by (simp add: parse_exampleAlert exampleAlertStatus_def)

text \<open>
  The theorem at the engine and the messages of the repository's test, with a forwarded
  message and a message that is not text between the two: the walk keeps \<open>exampleAlert\<close>,
  ends at \<open>exampleClear\<close>, which is older than the start of the period, and leaves the last
  entry of the script unused.
\<close>

theorem backfill_walk_witness:
  "delivers [page [exampleAlert], page [exampleForwarded], page [examplePhoto]] 0
     [exampleAlert, exampleForwarded, examplePhoto]
   \<and> \<not> Before (time_Unix (Date exampleAlert)) (historyFromDate exampleScraper)
   \<and> \<not> Before (time_Unix (Date exampleForwarded)) (historyFromDate exampleScraper)
   \<and> \<not> Before (time_Unix (Date examplePhoto)) (historyFromDate exampleScraper)
   \<and> ends (page [exampleClear]) (cursorAfter 0 [exampleAlert, exampleForwarded, examplePhoto])
        (historyFromDate exampleScraper)
   \<and> sorted (rev (map Date [exampleAlert, exampleForwarded, examplePhoto]))
   \<and> \<not> closed (historyDone exampleScraper)
   \<and> snd (parseMessage kyivLocation exampleAlert) = None
   \<and> foldl (mergeParsed kyivLocation) newAlertData [exampleAlert] =
       AlertData_set newAlertData (Some exampleAlertStatus)
   \<and> getMessagesForPeriod (historyFromDate exampleScraper)
        [page [exampleAlert], page [exampleForwarded], page [examplePhoto]] = None
   \<and> getMessagesForPeriod (historyFromDate exampleScraper)
        [page [exampleAlert], page [exampleForwarded], page [examplePhoto], page [exampleClear],
         page []]
       = Some (([exampleAlert], None), [page []])
   \<and> history kyivLocation exampleScraper
        [page [exampleAlert], page [exampleForwarded], page [examplePhoto], page [exampleClear],
         page []]
       = Some (Returns None,
               exampleScraper\<lparr>alertData := AlertData_set newAlertData (Some exampleAlertStatus),
                               historyDone := \<lparr>sent = [], closed = True\<rparr>\<rparr>,
               [page []])"
proof -
  let ?ms = "[exampleAlert, exampleForwarded, examplePhoto]"
  let ?pre = "[page [exampleAlert], page [exampleForwarded], page [examplePhoto]]"
  have dl: "delivers ?pre 0 ?ms"
    by (simp add: page_def)
  have r1: "\<not> Before (time_Unix (Date exampleAlert)) (historyFromDate exampleScraper)"
    and r2: "\<not> Before (time_Unix (Date exampleForwarded)) (historyFromDate exampleScraper)"
    and r3: "\<not> Before (time_Unix (Date examplePhoto)) (historyFromDate exampleScraper)"
    by (simp_all add: exampleScraper_fields Before_def time_Unix_def exampleAlert_def
          exampleForwarded_def examplePhoto_def)
  from r1 r2 r3 have recent:
    "\<forall>m\<in>set ?ms. \<not> Before (time_Unix (Date m)) (historyFromDate exampleScraper)"
    by simp
  have stop: "ends (page [exampleClear]) (cursorAfter 0 ?ms) (historyFromDate exampleScraper)"
    by (simp add: ends_def page_def exampleScraper_fields Before_def time_Unix_def
          exampleClear_def)
  have nf: "sorted (rev (map Date ?ms))"
    by (simp add: exampleAlert_def exampleForwarded_def examplePhoto_def)
  have op: "\<not> closed (historyDone exampleScraper)"
    by (simp add: exampleScraper_fields)
  have ok: "snd (parseMessage kyivLocation exampleAlert) = None"
    by (simp add: parse_exampleAlert)
  have mg: "foldl (mergeParsed kyivLocation) newAlertData [exampleAlert] =
       AlertData_set newAlertData (Some exampleAlertStatus)"
    by (simp add: mergeParsed_def parse_exampleAlert exampleAlertStatus_def)
  note main = backfill_walk [OF dl recent stop nf op, of "[page []]" kyivLocation,
      unfolded example_kept]
  from main have 1: "getMessagesForPeriod (historyFromDate exampleScraper) ?pre = None"
    by (simp add: exampleScraper_fields)
  from main have 2: "getMessagesForPeriod (historyFromDate exampleScraper)
        (?pre @ page [exampleClear] # [page []]) = Some (([exampleAlert], None), [page []])"
    by (simp add: exampleScraper_fields)
  from main ok mg have 3: "history kyivLocation exampleScraper (?pre @ page [exampleClear] # [page []])
       = Some (Returns None,
               exampleScraper\<lparr>alertData := AlertData_set newAlertData (Some exampleAlertStatus),
                               historyDone := \<lparr>sent = [], closed = True\<rparr>\<rparr>,
               [page []])"
    by (simp add: exampleScraper_fields parse_exampleAlert exampleAlertStatus_def mergeParsed_def)
  from dl r1 r2 r3 stop nf op ok mg 1 2 3 show ?thesis by simp
qed


text \<open>
  Claim C9. Whenever \<^verbatim>\<open>history\<close> comes to an end, started with \<^verbatim>\<open>historyDone\<close> open as the
  constructor leaves it, it returns (the single deferred close does not panic),
  \<^verbatim>\<open>historyDone\<close> is closed, nothing was sent on it, and \<^verbatim>\<open>WaitForHistory\<close> can return nil
  whatever the state of its context, so it does not block. This holds on every way out:
  the hypothesis only says that \<^verbatim>\<open>history\<close> ended, not how.
\<close>

theorem history_done_signalled:
  assumes "\<not> closed (historyDone r)"
      and "history Local r steps = Some (res, r', rest)"
  shows "(\<exists>ret. res = Returns ret) \<and> closed (historyDone r')
       \<and> sent (historyDone r') = sent (historyDone r)
       \<and> None \<in> WaitForHistory r' ctxDone"
  using assms
  by (auto simp: history_def close_chan_def WaitForHistory_def Let_def split_beta
           split: option.splits if_splits)

lemma exampleAlert_fields:
  "Id exampleAlert = 104" "Date exampleAlert = 1724195719" "ForwardInfo exampleAlert = None"
  "isText (Content exampleAlert)"
  by (simp_all add: exampleAlert_def isText_def)

lemma exampleClear_fields:
  "Id exampleClear = 101" "Date exampleClear = 1724086012" "ForwardInfo exampleClear = None"
  "isText (Content exampleClear)"
  by (simp_all add: exampleClear_def isText_def)

lemma badTimeMessage_fields:
  "Id badTimeMessage = 105" "Date badTimeMessage = 1724220000" "ForwardInfo badTimeMessage = None"
  "isText (Content badTimeMessage)"
  by (simp_all add: badTimeMessage_def isText_def)

lemma history_completes:
  "history kyivLocation exampleScraper [page [exampleAlert], page [exampleClear]] =
     Some (Returns None,
           exampleScraper\<lparr>alertData := AlertData_set newAlertData (Some exampleAlertStatus),
                           historyDone := \<lparr>sent = [], closed = True\<rparr>\<rparr>,
           [])"
  by (simp add: history_def getMessagesForPeriod_def page_def exampleScraper_fields Before_def
        time_Unix_def exampleAlert_fields exampleClear_fields close_chan_def
        parse_exampleAlert exampleAlertStatus_def)

lemma history_client_error:
  "history kyivLocation exampleScraper [clientFails (Err ''unexpected call'')] =
     Some (Returns (Some (Err ''unexpected call'')),
           exampleScraper\<lparr>alertData := newAlertData,
                           historyDone := \<lparr>sent = [], closed = True\<rparr>\<rparr>,
           [])"
  by (simp add: history_def getMessagesForPeriod_def clientFails_def exampleScraper_fields
        close_chan_def)

lemma history_cancelled:
  "history kyivLocation exampleScraper [cancelled Canceled] =
     Some (Returns (Some Canceled),
           exampleScraper\<lparr>alertData := newAlertData,
                           historyDone := \<lparr>sent = [], closed = True\<rparr>\<rparr>,
           [])"
  by (simp add: history_def getMessagesForPeriod_def cancelled_def exampleScraper_fields
        close_chan_def)

lemma history_parse_error:
  "history Local exampleScraper [page [badTimeMessage], page []] =
     Some (Returns (Some (Wrap ''unable to scrape history: ''
              (Wrap ''failed to parse time: 99:99:00: ''
                 (ParseError ''99:99:00'' '': hour out of range'')))),
           exampleScraper\<lparr>alertData := newAlertData,
                           historyDone := \<lparr>sent = [], closed = True\<rparr>\<rparr>,
           [])"
  by (simp add: history_def getMessagesForPeriod_def page_def exampleScraper_fields Before_def
        time_Unix_def badTimeMessage_fields close_chan_def parse_badTime)

text \<open>
  The theorem on the three ways out, at the engine of the repository's test: the history is
  read to its end; the client fails; the context is cancelled. Each time \<^verbatim>\<open>WaitForHistory\<close>
  with a context that is not done returns nil, whereas before \<^verbatim>\<open>history\<close> it blocks.
\<close>

theorem history_done_signalled_witness:
  "\<not> closed (historyDone exampleScraper)
   \<and> history kyivLocation exampleScraper [page [exampleAlert], page [exampleClear]] =
       Some (Returns None,
             exampleScraper\<lparr>alertData := AlertData_set newAlertData (Some exampleAlertStatus),
                             historyDone := \<lparr>sent = [], closed = True\<rparr>\<rparr>,
             [])
   \<and> WaitForHistory
        (exampleScraper\<lparr>alertData := AlertData_set newAlertData (Some exampleAlertStatus),
                        historyDone := \<lparr>sent = [], closed = True\<rparr>\<rparr>) None = {None}
   \<and> history kyivLocation exampleScraper [clientFails (Err ''unexpected call'')] =
       Some (Returns (Some (Err ''unexpected call'')),
             exampleScraper\<lparr>alertData := newAlertData,
                             historyDone := \<lparr>sent = [], closed = True\<rparr>\<rparr>,
             [])
   \<and> history kyivLocation exampleScraper [cancelled Canceled] =
       Some (Returns (Some Canceled),
             exampleScraper\<lparr>alertData := newAlertData,
                             historyDone := \<lparr>sent = [], closed = True\<rparr>\<rparr>,
             [])
   \<and> WaitForHistory
        (exampleScraper\<lparr>alertData := newAlertData,
                        historyDone := \<lparr>sent = [], closed = True\<rparr>\<rparr>) None = {None}
   \<and> WaitForHistory exampleScraper None = {}"
proof -
  let ?r1 = "exampleScraper\<lparr>alertData := AlertData_set newAlertData (Some exampleAlertStatus),
                            historyDone := \<lparr>sent = [], closed = True\<rparr>\<rparr>"
  let ?r2 = "exampleScraper\<lparr>alertData := newAlertData,
                            historyDone := \<lparr>sent = [], closed = True\<rparr>\<rparr>"
  have op: "\<not> closed (historyDone exampleScraper)"
    by (simp add: exampleScraper_fields)
  from history_done_signalled [OF op history_completes, of None]
  have "None \<in> WaitForHistory ?r1 None" by simp
  then have w1: "WaitForHistory ?r1 None = {None}"
    by (auto simp: WaitForHistory_def split: if_splits)
  from history_done_signalled [OF op history_client_error, of None]
  have "None \<in> WaitForHistory ?r2 None" by simp
  then have w2: "WaitForHistory ?r2 None = {None}"
    by (auto simp: WaitForHistory_def split: if_splits)
  have w0: "WaitForHistory exampleScraper None = {}"
    by (simp add: WaitForHistory_def exampleScraper_fields)
  from op history_completes w1 history_client_error history_cancelled w2 w0
  show ?thesis by (simp only: simp_thms)
qed


section \<open>Run\<close>

lemma sendUpdate_frame:
  "client (sendUpdate r dlv status) = client r"
  by (simp add: sendUpdate_def split: option.splits)

lemma listenLoop_client:
  "listenLoop Local r evs = Some (e, r', rest) \<Longrightarrow> client r' = client r"
proof (induction Local r evs rule: listenLoop.induct)
  case (5 Local r message dlv es)
  obtain st err where p: "parseMessage Local message = (st, err)"
    by (cases "parseMessage Local message")
  from "5.IH" "5.prems" p show ?case
    by (cases st; cases err) (simp_all add: sendUpdate_frame)
qed simp_all

lemma listenUpdates_client:
  "listenUpdates Local r evs = Some (res, r', rest) \<Longrightarrow> client r' = client r"
  by (auto simp: listenUpdates_def closeUpdates_def dest: listenLoop_client
           split: option.splits prod.splits)

lemma history_client:
  "history Local r steps = Some (res, r', rest) \<Longrightarrow> client r' = client r"
  by (auto simp: history_def Let_def split_beta close_chan_def split: option.splits if_splits)

lemma run_client:
  "run Local r env = Some (res, r') \<Longrightarrow> client r' = client r"
  by (auto simp: run_def dest!: history_client listenUpdates_client
           split: option.splits prod.splits result.splits)

text \<open>
  Claim C3. On an engine made by the constructor whose latch has not fired, \<^verbatim>\<open>Run\<close> with a
  context performs \<^verbatim>\<open>run\<close>: it returns when \<^verbatim>\<open>run\<close> does, with the error of \<^verbatim>\<open>run\<close>
  (wrapped) or nil, and with the engine as \<^verbatim>\<open>run\<close> left it. Once it has returned, every
  later \<^verbatim>\<open>Run\<close> with a context returns nil and leaves the engine as it is, whatever the
  outside world would have done: the result does not depend on the script, so \<^verbatim>\<open>run\<close> is
  not performed again.
\<close>

theorem Run_once:
  assumes cl: "client r \<noteq> None" and fresh: "\<not> once r"
  shows "Run Local r (Some ctx) env =
           (case run Local r env of
              None \<Rightarrow> None
            | Some (Panics p, r') \<Rightarrow> Some (Panics p, r'\<lparr>once := True\<rparr>)
            | Some (Returns err, r') \<Rightarrow>
                Some (Returns (case err of
                                 Some e \<Rightarrow> Some (Wrap ''scraper: '' e)
                               | None \<Rightarrow> None),
                      r'\<lparr>once := True\<rparr>))
       \<and> (\<forall>res r'. Run Local r (Some ctx) env = Some (res, r') \<longrightarrow>
             (\<forall>ctx' env'. Run Local r' (Some ctx') env' = Some (Returns None, r')))"
proof -
  have 1: "Run Local r (Some ctx) env =
           (case run Local r env of
              None \<Rightarrow> None
            | Some (Panics p, r') \<Rightarrow> Some (Panics p, r'\<lparr>once := True\<rparr>)
            | Some (Returns err, r') \<Rightarrow>
                Some (Returns (case err of
                                 Some e \<Rightarrow> Some (Wrap ''scraper: '' e)
                               | None \<Rightarrow> None),
                      r'\<lparr>once := True\<rparr>))"
    using cl fresh by (auto simp: Run_def)
  have 2: "Run Local r' (Some ctx') env' = Some (Returns None, r')"
    if "Run Local r (Some ctx) env = Some (res, r')" for res r' ctx' env'
  proof -
    from that obtain res0 r0 where r0: "run Local r env = Some (res0, r0)"
      and r': "r' = r0\<lparr>once := True\<rparr>"
      unfolding 1 by (auto split: option.splits prod.splits result.splits)
    from run_client [OF r0] cl r' have "client r' \<noteq> None" "once r'" by simp_all
    then show ?thesis by (simp add: Run_def)
  qed
  from 1 2 show ?thesis by blast
qed

text \<open>
  Claim C8. \<^verbatim>\<open>Run\<close> without a context panics. The engine is as before, the latch included,
  and the result does not depend on the script: nothing of \<^verbatim>\<open>run\<close> has happened, neither
  \<^verbatim>\<open>history\<close> nor \<^verbatim>\<open>listenUpdates\<close> has been started.
\<close>

theorem Run_nil_context:
  "Run Local r None env =
     Some (Panics (if client r = None
                   then ''scraper: use scraper.NewTgScraper() to create *TgScraper instance''
                   else ''scraper: nil context''), r)"
  by (simp add: Run_def)

text \<open>The theorem at the engine of the repository's test, which has a client.\<close>

theorem Run_nil_context_witness:
  "Run kyivLocation exampleScraper None
     \<lparr>histSteps = [page [exampleAlert], page [exampleClear]], events = [CtxDone Canceled]\<rparr> =
   Some (Panics ''scraper: nil context'', exampleScraper)"
  using Run_nil_context [of kyivLocation exampleScraper
      "\<lparr>histSteps = [page [exampleAlert], page [exampleClear]], events = [CtxDone Canceled]\<rparr>"]
  by (simp add: exampleScraper_fields)

lemma listen_cancelled:
  "listenUpdates Local r [CtxDone Canceled] =
     (case closeUpdates r of
        None \<Rightarrow> Some (Panics ''close of closed channel'', r, [])
      | Some r2 \<Rightarrow> Some (Returns (Some Canceled), r2, []))"
  by (simp add: listenUpdates_def)

lemma run_example:
  "run kyivLocation exampleScraper
     \<lparr>histSteps = [page [exampleAlert], page [exampleClear]], events = [CtxDone Canceled]\<rparr> =
   Some (Returns (Some Canceled),
         exampleScraper\<lparr>alertData := AlertData_set newAlertData (Some exampleAlertStatus),
                         historyDone := \<lparr>sent = [], closed = True\<rparr>\<rparr>)"
  by (simp add: run_def history_completes listen_cancelled closeUpdates_def exampleScraper_fields)

text \<open>
  The theorem at the engine of the repository's test: the first \<^verbatim>\<open>Run\<close> reads the history
  and returns when the context is cancelled; a second \<^verbatim>\<open>Run\<close>, in a world where the history
  and the listener would both make \<^verbatim>\<open>run\<close> fail, returns nil and changes nothing.
\<close>

theorem Run_once_witness:
  "client exampleScraper \<noteq> None \<and> \<not> once exampleScraper
   \<and> Run kyivLocation exampleScraper (Some Context)
        \<lparr>histSteps = [page [exampleAlert], page [exampleClear]], events = [CtxDone Canceled]\<rparr> =
       Some (Returns (Some (Wrap ''scraper: '' Canceled)),
             exampleScraper\<lparr>alertData := AlertData_set newAlertData (Some exampleAlertStatus),
                             historyDone := \<lparr>sent = [], closed = True\<rparr>, once := True\<rparr>)
   \<and> Run kyivLocation
        (exampleScraper\<lparr>alertData := AlertData_set newAlertData (Some exampleAlertStatus),
                        historyDone := \<lparr>sent = [], closed = True\<rparr>, once := True\<rparr>)
        (Some Context)
        \<lparr>histSteps = [page [badTimeMessage]], events = [Received None False]\<rparr> =
       Some (Returns None,
             exampleScraper\<lparr>alertData := AlertData_set newAlertData (Some exampleAlertStatus),
                             historyDone := \<lparr>sent = [], closed = True\<rparr>, once := True\<rparr>)"
proof -
  let ?env = "\<lparr>histSteps = [page [exampleAlert], page [exampleClear]], events = [CtxDone Canceled]\<rparr>"
  let ?r' = "exampleScraper\<lparr>alertData := AlertData_set newAlertData (Some exampleAlertStatus),
                            historyDone := \<lparr>sent = [], closed = True\<rparr>, once := True\<rparr>"
  have cl: "client exampleScraper \<noteq> None" and fresh: "\<not> once exampleScraper"
    by (simp_all add: exampleScraper_fields)
  note main = Run_once [OF cl fresh, of kyivLocation Context ?env]
  from main have first: "Run kyivLocation exampleScraper (Some Context) ?env =
      Some (Returns (Some (Wrap ''scraper: '' Canceled)), ?r')"
    by (simp add: run_example)
  with main have "Run kyivLocation ?r' (Some Context)
        \<lparr>histSteps = [page [badTimeMessage]], events = [Received None False]\<rparr> =
      Some (Returns None, ?r')"
    by blast
  with cl fresh first show ?thesis by (simp only: simp_thms)
qed

subsection \<open>The stores of an engine\<close>

lemma history_reachable:
  "history Local r steps = Some (res, r', rest) \<Longrightarrow> reachable Local (alertData r) \<Longrightarrow>
   reachable Local (alertData r')"
  using reachable_historyLoop [of Local "alertData r"]
  by (auto simp: history_def Let_def split_beta close_chan_def split: option.splits if_splits)

lemma listenUpdates_reachable:
  "listenUpdates Local r evs = Some (res, r', rest) \<Longrightarrow> reachable Local (alertData r) \<Longrightarrow>
   reachable Local (alertData r')"
  by (auto simp: listenUpdates_def closeUpdates_def dest: reachable_listenLoop
           split: option.splits prod.splits)

lemma run_reachable:
  "run Local r env = Some (res, r') \<Longrightarrow> reachable Local (alertData r) \<Longrightarrow>
   reachable Local (alertData r')"
  by (auto simp: run_def dest: history_reachable listenUpdates_reachable
           split: option.splits prod.splits result.splits)

text \<open>
  The store of an engine is reachable in the sense above: the constructor puts the store of
  \<^verbatim>\<open>newAlertData\<close> there, and \<^verbatim>\<open>Run\<close> keeps it reachable.
\<close>

lemma NewTgScraper_reachable: "reachable Local (alertData (NewTgScraper now cl []))"
  by (simp add: NewTgScraper_def created)

lemma Run_reachable:
  "Run Local r ctx env = Some (res, r') \<Longrightarrow> reachable Local (alertData r) \<Longrightarrow>
   reachable Local (alertData r')"
  by (auto simp: Run_def dest: run_reachable
           split: if_splits option.splits prod.splits result.splits)

text \<open>A second close of \<^verbatim>\<open>historyDone\<close> would panic.\<close>

lemma history_closed_panics:
  "closed (historyDone r) \<Longrightarrow> history Local r steps = Some (res, r', rest) \<Longrightarrow>
   res = Panics ''close of closed channel''"
  by (auto simp: history_def Let_def split_beta close_chan_def split: option.splits if_splits)


section \<open>A time of day that is none\<close>

lemma listen_badTime:
  "listenUpdates Local r [Received (Some (UpdateNewMessage badTimeMessage)) True] =
     (case closeUpdates r of
        None \<Rightarrow> Some (Panics ''close of closed channel'', r, [])
      | Some r2 \<Rightarrow>
          Some (Returns (Some (Wrap ''unable to scrape update: ''
                  (Wrap ''failed to parse time: 99:99:00: ''
                     (ParseError ''99:99:00'' '': hour out of range'')))), r2, []))"
  by (simp add: listenUpdates_def parse_badTime)

lemma history_empty:
  "history Local exampleScraper [page []] =
     Some (Returns None,
           exampleScraper\<lparr>alertData := newAlertData,
                           historyDone := \<lparr>sent = [], closed = True\<rparr>\<rparr>,
           [])"
  by (simp add: history_def getMessagesForPeriod_def page_def exampleScraper_fields close_chan_def)

text \<open>
  Claim C10. The text \<open>badTimeText\<close> matches the pattern, with \<open>99:99\<close> as its time;
  \<^verbatim>\<open>time.Parse\<close> rejects that time; \<^verbatim>\<open>parseMessage\<close> returns the error, not the pair of nils
  of a line that is no status. With the message in the history, \<^verbatim>\<open>history\<close> returns the
  error and \<^verbatim>\<open>Run\<close> returns it; with the message in the live updates,
  \<^verbatim>\<open>listenUpdates\<close> returns the error and \<^verbatim>\<open>Run\<close> returns it.
\<close>

theorem bad_time_is_fatal:
  "FindStringSubmatch badTimeText = [badTimeText, ''99:99'', phraseAlert, ID_String Odesa]
   \<and> snd (time_Parse_TimeOnly ''99:99:00'') = Some (ParseError ''99:99:00'' '': hour out of range'')
   \<and> (\<forall>Local. parseMessage Local badTimeMessage =
         (None, Some (Wrap ''failed to parse time: 99:99:00: ''
                        (ParseError ''99:99:00'' '': hour out of range''))))
   \<and> (\<forall>Local. Run Local exampleScraper (Some Context)
         \<lparr>histSteps = [page [badTimeMessage], page []], events = [CtxDone Canceled]\<rparr> =
         Some (Returns (Some (Wrap ''scraper: '' (Wrap ''unable to scrape history: ''
                 (Wrap ''failed to parse time: 99:99:00: ''
                    (ParseError ''99:99:00'' '': hour out of range''))))),
               exampleScraper\<lparr>alertData := newAlertData,
                               historyDone := \<lparr>sent = [], closed = True\<rparr>, once := True\<rparr>))
   \<and> (\<forall>Local. Run Local exampleScraper (Some Context)
         \<lparr>histSteps = [page []],
          events = [Received (Some (UpdateNewMessage badTimeMessage)) True]\<rparr> =
         Some (Returns (Some (Wrap ''scraper: '' (Wrap ''unable to scrape update: ''
                 (Wrap ''failed to parse time: 99:99:00: ''
                    (ParseError ''99:99:00'' '': hour out of range''))))),
               exampleScraper\<lparr>alertData := newAlertData,
                               historyDone := \<lparr>sent = [], closed = True\<rparr>, once := True\<rparr>))"
proof -
  have 1: "Run Local exampleScraper (Some Context)
         \<lparr>histSteps = [page [badTimeMessage], page []], events = [CtxDone Canceled]\<rparr> =
         Some (Returns (Some (Wrap ''scraper: '' (Wrap ''unable to scrape history: ''
                 (Wrap ''failed to parse time: 99:99:00: ''
                    (ParseError ''99:99:00'' '': hour out of range''))))),
               exampleScraper\<lparr>alertData := newAlertData,
                               historyDone := \<lparr>sent = [], closed = True\<rparr>, once := True\<rparr>)" for Local
    by (simp add: Run_def run_def history_parse_error listen_cancelled closeUpdates_def
          exampleScraper_fields)
  have 2: "Run Local exampleScraper (Some Context)
         \<lparr>histSteps = [page []],
          events = [Received (Some (UpdateNewMessage badTimeMessage)) True]\<rparr> =
         Some (Returns (Some (Wrap ''scraper: '' (Wrap ''unable to scrape update: ''
                 (Wrap ''failed to parse time: 99:99:00: ''
                    (ParseError ''99:99:00'' '': hour out of range''))))),
               exampleScraper\<lparr>alertData := newAlertData,
                               historyDone := \<lparr>sent = [], closed = True\<rparr>, once := True\<rparr>)" for Local
    by (simp add: Run_def run_def history_empty listen_badTime closeUpdates_def
          exampleScraper_fields)
  from find_badTime parse_time_9999 parse_badTime 1 2 show ?thesis by simp
qed


section \<open>A message delivered just after midnight\<close>

lemma midnight_dates:
  "time_Date 2024 1 15 23 59 0 0 kyivLocation = time_Unix 1705355940"
  "time_Date 2024 1 14 23 59 0 0 kyivLocation = time_Unix 1705269540"
  by code_simp+

lemma midnight_delivery: "civil kyivLocation (time_Unix (Date midnightMessage)) = (2024, 1, 15)"
  by code_simp

lemma midnight_after:
  "After (time_Date 2024 1 15 23 59 0 0 kyivLocation) (time_Unix (Date midnightMessage))"
  by code_simp

lemma midnight_back:
  "Add (time_Date 2024 1 15 23 59 0 0 kyivLocation) (- 24 * time_Hour) =
       time_Date 2024 1 14 23 59 0 0 kyivLocation"
  by code_simp

lemma midnight_differ:
  "time_Date 2024 1 15 23 59 0 0 kyivLocation \<noteq> time_Date 2024 1 14 23 59 0 0 kyivLocation"
  by code_simp

text \<open>
  Claim C2, at \<open>midnightMessage\<close> with the process in the Kyiv time zone. The message is
  delivered on 2024-01-15 at 00:01 and its line says 23:59. The time 23:59 on the day of
  delivery is after the delivery, so the rule applies, and one day earlier is 2024-01-14
  23:59; but \<^verbatim>\<open>parseMessage\<close> returns 2024-01-15 23:59, the date of delivery.
\<close>

theorem parseMessage_midnight_not_rolled_back:
  "parseMessage kyivLocation midnightMessage =
     (Some \<lparr>Region = Odesa, Enabled = True,
            UpdatedAt = time_Date 2024 1 15 23 59 0 0 kyivLocation, IsHistory = False\<rparr>, None)
   \<and> civil kyivLocation (time_Unix (Date midnightMessage)) = (2024, 1, 15)
   \<and> After (time_Date 2024 1 15 23 59 0 0 kyivLocation) (time_Unix (Date midnightMessage))
   \<and> Add (time_Date 2024 1 15 23 59 0 0 kyivLocation) (- 24 * time_Hour) =
       time_Date 2024 1 14 23 59 0 0 kyivLocation
   \<and> time_Date 2024 1 15 23 59 0 0 kyivLocation \<noteq> time_Date 2024 1 14 23 59 0 0 kyivLocation"
proof -
  have p: "parseMessage kyivLocation midnightMessage =
     (Some \<lparr>Region = Odesa, Enabled = True,
            UpdatedAt = time_Date 2024 1 15 23 59 0 0 kyivLocation, IsHistory = False\<rparr>, None)"
    unfolding midnight_dates(1) by (rule parse_midnight)
  from p midnight_delivery midnight_after midnight_back midnight_differ show ?thesis
    by (intro conjI)
qed


end
